theory Spec2Isabelle
  imports Complex_Main "HOL-Library.Word" "HOL-Library.Multiset" "HOL-Library.AList"
    "HOL-Library.List_Lexorder"
begin

unbundle bit_operations_syntax

section \<open>JavaScript values\<close>

text \<open>
  A JavaScript string is a sequence of UTF-16 code units; \<open>length\<close> is the source's
  \<open>.length\<close> and an element is what \<open>charCodeAt\<close> returns.  String literals of the
  source are written \<open>str ''...''\<close>.
\<close>

type_synonym jsstring = "nat list"

definition str :: "string \<Rightarrow> jsstring" where
  "str s = map of_char s"

text \<open>
  The values that travel through the handlers: request payloads, rows returned by the
  data-access layer, cached data and response bodies.  Numbers are the finite ones,
  as exact rationals (JSON has no NaN and no infinity).
\<close>

datatype jsvalue =
    JUndefined
  | JNull
  | JBool bool
  | JNumber rat
  | JString jsstring
  | JArray "jsvalue list"
  | JObject "(jsstring \<times> jsvalue) list"

text \<open>Property read \<open>obj[key]\<close>: \<open>undefined\<close> when the property is absent.\<close>

fun prop_of :: "jsvalue \<Rightarrow> jsstring \<Rightarrow> jsvalue" where
  "prop_of (JObject fields) k = (case map_of fields k of None \<Rightarrow> JUndefined | Some v \<Rightarrow> v)"
| "prop_of _ k = JUndefined"

text \<open>
  What a \<open>throw\<close> carries, and what the error-response helpers receive as
  \<open>error: unknown\<close>: an \<open>Error\<close> instance with its message, or a value that is
  not an \<open>Error\<close> instance (the handlers pass plain strings).
\<close>

datatype thrown = ErrorInstance jsstring | NotAnError jsvalue

text \<open>\<open>Number.prototype.toString(radix)\<close> on a non-negative integer.\<close>

definition digit_char :: "nat \<Rightarrow> nat" where
  "digit_char d = (if d < 10 then 48 + d else 87 + d)"

function Number_toString :: "nat \<Rightarrow> nat \<Rightarrow> jsstring" where
  "Number_toString radix n =
     (if n < radix \<or> radix < 2 then [digit_char n]
      else Number_toString radix (n div radix) @ [digit_char (n mod radix)])"
  by pat_completeness auto
termination
  by (relation "measure (\<lambda>(radix, n). n)") auto

declare Number_toString.simps [simp del]

section \<open>Requests, environment, responses\<close>

text \<open>
  The parts of a \<open>Request\<close> the utilities read: the method, the parsed URL (path and
  the query parameters in the order \<open>URLSearchParams\<close> yields them) and the three
  headers looked up with \<open>headers.get\<close> (\<open>None\<close> is \<open>null\<close>).
\<close>

record Request =
  http_method :: jsstring
  pathname :: jsstring
  searchParams :: "(jsstring \<times> jsstring) list"
  Origin :: "jsstring option"
  If_None_Match :: "jsstring option"
  Content_Type :: "jsstring option"

record Env =
  ENVIRONMENT :: "jsstring option"
  NODE_ENV :: "jsstring option"

text \<open>
  A \<open>Response\<close>: the status (200 when the source gives none), the headers object in
  insertion order, and the body.  \<open>Some v\<close> is the body text \<open>JSON.stringify(v)\<close>;
  \<open>None\<close> is the \<open>null\<close> body.
\<close>

record Response =
  status :: nat
  headers :: "(jsstring \<times> jsstring) list"
  body :: "jsvalue option"

text \<open>
  Object spread followed by further properties, \<open>{ ...base, k: v, ... }\<close>: each
  property is assigned in turn, replacing an existing one in place.
\<close>

definition spread :: "(jsstring \<times> jsstring) list \<Rightarrow> (jsstring \<times> jsstring) list \<Rightarrow> (jsstring \<times> jsstring) list" where
  "spread base props = foldl (\<lambda>hs (k, v). AList.update k v hs) base props"

subsection \<open>CORS\<close>

definition productionOrigins :: "jsstring list" where
  "productionOrigins = [str ''https://petition.ph'', str ''https://www.petition.ph'']"

definition developmentOrigins :: "jsstring list" where
  "developmentOrigins =
     [str ''http://localhost:3000'',
      str ''http://localhost:5173'',
      str ''http://localhost:8080'',
      str ''http://127.0.0.1:3000'',
      str ''http://127.0.0.1:5173'',
      str ''http://127.0.0.1:8080'']"

definition isProduction :: "Env \<Rightarrow> bool" where
  "isProduction env =
     (ENVIRONMENT env = Some (str ''production'') \<or> NODE_ENV env = Some (str ''production''))"

definition allowedOrigins :: "Env \<Rightarrow> jsstring list" where
  "allowedOrigins env =
     (if isProduction env then productionOrigins else productionOrigins @ developmentOrigins)"

text \<open>
  \<open>allowedOrigins.includes(origin || '') ? origin : null\<close>, then
  \<open>allowedOrigin || '*'\<close>: an absent or empty origin reads as \<open>''\<close>, which is
  not in the list.
\<close>

definition allowedOrigin :: "Request \<Rightarrow> Env \<Rightarrow> jsstring option" where
  "allowedOrigin request env =
     (let origin = Origin request;
          probe = (case origin of None \<Rightarrow> [] | Some v \<Rightarrow> v)
      in if probe \<in> set (allowedOrigins env) then origin else None)"

definition getCorsHeaders :: "Request \<Rightarrow> Env \<Rightarrow> (jsstring \<times> jsstring) list" where
  "getCorsHeaders request env =
     [(str ''Access-Control-Allow-Origin'',
         (case allowedOrigin request env of
            None \<Rightarrow> str ''*''
          | Some v \<Rightarrow> if v = [] then str ''*'' else v)),
      (str ''Access-Control-Allow-Methods'', str ''GET, POST, PUT, DELETE, OPTIONS''),
      (str ''Access-Control-Allow-Headers'', str ''Content-Type, Authorization, X-Requested-With''),
      (str ''Access-Control-Allow-Credentials'', str ''true''),
      (str ''Access-Control-Max-Age'', str ''86400'')]"

text \<open>The legacy, origin-independent header set.\<close>

definition corsHeaders :: "(jsstring \<times> jsstring) list" where
  "corsHeaders =
     [(str ''Access-Control-Allow-Origin'', str ''*''),
      (str ''Access-Control-Allow-Methods'', str ''GET, POST, PUT, DELETE, OPTIONS''),
      (str ''Access-Control-Allow-Headers'', str ''Content-Type, Authorization'')]"

definition handleCORS :: "Request \<Rightarrow> Env \<Rightarrow> Response option" where
  "handleCORS request env =
     (if http_method request = str ''OPTIONS''
      then Some \<lparr>status = 204, headers = getCorsHeaders request env, body = None\<rparr>
      else None)"

subsection \<open>Response constructors\<close>

definition createSuccessResponse :: "jsvalue \<Rightarrow> Response" where
  "createSuccessResponse data =
     \<lparr>status = 200,
      headers = spread corsHeaders [(str ''Content-Type'', str ''application/json'')],
      body = Some data\<rparr>"

text \<open>\<open>error instanceof Error ? error.message : 'Unknown error'\<close>\<close>

definition error_message :: "thrown \<Rightarrow> jsstring" where
  "error_message e = (case e of ErrorInstance m \<Rightarrow> m | NotAnError _ \<Rightarrow> str ''Unknown error'')"

definition createCachedErrorResponse :: "thrown \<Rightarrow> Request \<Rightarrow> Env \<Rightarrow> nat \<Rightarrow> Response" where
  "createCachedErrorResponse e request env st =
     \<lparr>status = st,
      headers = spread (getCorsHeaders request env)
        [(str ''Content-Type'', str ''application/json''),
         (str ''Cache-Control'', str ''no-cache, no-store, must-revalidate'')],
      body = Some (JObject [(str ''error'', JString (error_message e))])\<rparr>"

text \<open>A formatted validation error \<open>{ field, message }\<close>.\<close>

record FieldError =
  field :: jsstring
  message :: jsstring

definition FieldError_json :: "FieldError \<Rightarrow> jsvalue" where
  "FieldError_json e =
     JObject [(str ''field'', JString (field e)), (str ''message'', JString (message e))]"

definition createValidationErrorResponse :: "FieldError list \<Rightarrow> Request \<Rightarrow> Env \<Rightarrow> Response" where
  "createValidationErrorResponse errors request env =
     \<lparr>status = 422,
      headers = spread (getCorsHeaders request env)
        [(str ''Content-Type'', str ''application/json''),
         (str ''Cache-Control'', str ''no-cache, no-store, must-revalidate'')],
      body = Some (JObject
        [(str ''message'', JString (str ''Validation failed'')),
         (str ''errors'', JArray (map FieldError_json errors))])\<rparr>"

subsection \<open>ETag and conditional responses\<close>

text \<open>
  One round of the hash loop.  \<open>hash << 5\<close> is a 32-bit shift, the subtraction and
  addition are exact in double precision, and \<open>hash & hash\<close> reduces the result to
  a signed 32-bit integer again: 32-bit wrap-around arithmetic.
\<close>

definition hash_step :: "32 word \<Rightarrow> nat \<Rightarrow> 32 word" where
  "hash_step hash char = push_bit 5 hash - hash + of_nat char"

text \<open>
  \<open>JSON.stringify\<close> belongs to the runtime; it is the parameter \<open>stringify\<close>.
  The tag is \<open>Math.abs(hash).toString(36)\<close> between double quotes.
\<close>

definition generateETag :: "(jsvalue \<Rightarrow> jsstring) \<Rightarrow> jsvalue \<Rightarrow> jsstring" where
  "generateETag stringify data =
     (let hash = foldl hash_step 0 (stringify data)
      in str ''\"'' @ Number_toString 36 (nat \<bar>sint hash\<bar>) @ str ''\"'')"

text \<open>
  \<open>date\<close> is \<open>new Date().toUTCString()\<close> at the time of the call.
\<close>

definition createCachedResponse ::
  "(jsvalue \<Rightarrow> jsstring) \<Rightarrow> jsstring \<Rightarrow> jsvalue \<Rightarrow> Request \<Rightarrow> Env \<Rightarrow> nat \<Rightarrow> Response" where
  "createCachedResponse stringify date data request env cacheMaxAge =
     (let corsHeaders = getCorsHeaders request env;
          etag = generateETag stringify data;
          clientETag = If_None_Match request
      in if clientETag = Some etag
         then \<lparr>status = 304,
               headers = spread corsHeaders
                 [(str ''ETag'', etag),
                  (str ''Cache-Control'', str ''public, max-age='' @ Number_toString 10 cacheMaxAge)],
               body = None\<rparr>
         else \<lparr>status = 200,
               headers = spread corsHeaders
                 [(str ''Content-Type'', str ''application/json''),
                  (str ''ETag'', etag),
                  (str ''Cache-Control'', str ''public, max-age='' @ Number_toString 10 cacheMaxAge),
                  (str ''Last-Modified'', date)],
               body = Some data\<rparr>)"

section \<open>Cache keys\<close>

text \<open>
  \<open>Array.prototype.sort\<close> with a comparison function is stable; for a consistent
  comparison function every stable sort returns the same array, the one this
  insertion sort builds.  An element goes before the first element it does not
  compare greater than, so elements that compare equal keep their order.
\<close>

fun insert_sorted :: "('a \<Rightarrow> 'a \<Rightarrow> int) \<Rightarrow> 'a \<Rightarrow> 'a list \<Rightarrow> 'a list" where
  "insert_sorted compareFn x [] = [x]"
| "insert_sorted compareFn x (y # ys) =
     (if compareFn x y \<le> 0 then x # y # ys else y # insert_sorted compareFn x ys)"

definition Array_sort :: "('a \<Rightarrow> 'a \<Rightarrow> int) \<Rightarrow> 'a list \<Rightarrow> 'a list" where
  "Array_sort compareFn xs = foldr (insert_sorted compareFn) xs []"

fun Array_join :: "jsstring \<Rightarrow> jsstring list \<Rightarrow> jsstring" where
  "Array_join sep [] = []"
| "Array_join sep [x] = x"
| "Array_join sep (x # y # ys) = x @ sep @ Array_join sep (y # ys)"

text \<open>
  \<open>String.prototype.localeCompare\<close> depends on the runtime's collation; it is the
  parameter \<open>localeCompare\<close>.  The comparison function of the source looks at the
  parameter names only: \<open>([a], [b]) => a.localeCompare(b)\<close>.
\<close>

definition sortedParams :: "(jsstring \<Rightarrow> jsstring \<Rightarrow> int) \<Rightarrow> Request \<Rightarrow> jsstring" where
  "sortedParams localeCompare request =
     Array_join (str ''&'')
       (map (\<lambda>(key, v). key @ str ''='' @ v)
          (Array_sort (\<lambda>(a, _) (b, _). localeCompare a b) (searchParams request)))"

definition generateCacheKey :: "(jsstring \<Rightarrow> jsstring \<Rightarrow> int) \<Rightarrow> Request \<Rightarrow> jsstring \<Rightarrow> jsstring" where
  "generateCacheKey localeCompare request prefix =
     (let path = pathname request;
          sorted = sortedParams localeCompare request
      in prefix @ str '':'' @ path @ (if sorted \<noteq> [] then str ''?'' @ sorted else []))"

text \<open>
  A comparison function is consistent when it is a total preorder: any two strings
  are comparable, and comparisons chain.
\<close>

definition consistent_comparator :: "('a \<Rightarrow> 'a \<Rightarrow> int) \<Rightarrow> bool" where
  "consistent_comparator c =
     ((\<forall>a b. c a b \<le> 0 \<or> c b a \<le> 0) \<and>
      (\<forall>a b d. c a b \<le> 0 \<and> c b d \<le> 0 \<longrightarrow> c a d \<le> 0))"

text \<open>No two query parameters carry the same name, nor names that compare equal.\<close>

definition distinct_names :: "(jsstring \<Rightarrow> jsstring \<Rightarrow> int) \<Rightarrow> (jsstring \<times> jsstring) list \<Rightarrow> bool" where
  "distinct_names c params =
     (distinct (map fst params) \<and>
      (\<forall>a \<in> set (map fst params). \<forall>b \<in> set (map fst params).
          c a b \<le> 0 \<and> c b a \<le> 0 \<longrightarrow> a = b))"

text \<open>
  A comparison function that orders strings by their code units, used where an
  example needs a concrete collation.
\<close>

definition codeUnitCompare :: "jsstring \<Rightarrow> jsstring \<Rightarrow> int" where
  "codeUnitCompare a b = (if a = b then 0 else if a < b then - 1 else 1)"

section \<open>The key-value cache\<close>

text \<open>
  Modelled from the spec: the key-value cache store is a hosted service with the
  interface \<open>get(key)\<close>, \<open>put(key, value, ttlSeconds)\<close>, \<open>list(prefix)\<close> and
  \<open>delete(key)\<close>.  The store holds, for each key, the text written and the time at
  which it expires; an entry is visible while the clock is before that time.  Every
  operation may fail: \<open>failure\<close> gives what the operation throws, if anything.
\<close>

datatype kv_op = KVGet jsstring | KVPut jsstring | KVList jsstring | KVDelete jsstring

record KVNamespace =
  entries :: "(jsstring \<times> jsstring \<times> nat) list"
  clock :: nat
  failure :: "kv_op \<Rightarrow> thrown option"

definition live :: "KVNamespace \<Rightarrow> (jsstring \<times> jsstring \<times> nat) list" where
  "live kv = filter (\<lambda>(k, text, expiry). clock kv < expiry) (entries kv)"

definition startsWith :: "jsstring \<Rightarrow> jsstring \<Rightarrow> bool" where
  "startsWith s prefix = (take (length prefix) s = prefix)"

definition kv_get :: "jsstring \<Rightarrow> KVNamespace \<Rightarrow> thrown + jsstring option" where
  "kv_get key kv =
     (case failure kv (KVGet key) of
        Some e \<Rightarrow> Inl e
      | None \<Rightarrow> Inr (map_option fst (map_of (live kv) key)))"

definition kv_put :: "jsstring \<Rightarrow> jsstring \<Rightarrow> nat \<Rightarrow> KVNamespace \<Rightarrow> thrown + KVNamespace" where
  "kv_put key text expirationTtl kv =
     (case failure kv (KVPut key) of
        Some e \<Rightarrow> Inl e
      | None \<Rightarrow> Inr (kv\<lparr>entries :=
          (key, text, clock kv + expirationTtl) # filter (\<lambda>e. fst e \<noteq> key) (entries kv)\<rparr>))"

definition kv_list :: "jsstring \<Rightarrow> KVNamespace \<Rightarrow> thrown + jsstring list" where
  "kv_list prefix kv =
     (case failure kv (KVList prefix) of
        Some e \<Rightarrow> Inl e
      | None \<Rightarrow> Inr (map fst (filter (\<lambda>e. startsWith (fst e) prefix) (live kv))))"

definition kv_delete :: "jsstring \<Rightarrow> KVNamespace \<Rightarrow> thrown + KVNamespace" where
  "kv_delete key kv =
     (case failure kv (KVDelete key) of
        Some e \<Rightarrow> Inl e
      | None \<Rightarrow> Inr (kv\<lparr>entries := filter (\<lambda>e. fst e \<noteq> key) (entries kv)\<rparr>))"

text \<open>
  \<open>kv.get(key, 'json')\<close>: \<open>null\<close> for a key that is not stored, the parsed text
  otherwise.  \<open>JSON.parse\<close> is the parameter \<open>parse\<close>; it throws on text that is
  not JSON.
\<close>

definition kv_get_json ::
  "(jsstring \<Rightarrow> thrown + jsvalue) \<Rightarrow> jsstring \<Rightarrow> KVNamespace \<Rightarrow> thrown + jsvalue" where
  "kv_get_json parse key kv =
     (case kv_get key kv of
        Inl e \<Rightarrow> Inl e
      | Inr None \<Rightarrow> Inr JNull
      | Inr (Some text) \<Rightarrow> parse text)"

text \<open>What calling a method on an undefined binding throws.\<close>

definition TypeError_undefined :: thrown where
  "TypeError_undefined = ErrorInstance (str ''Cannot read properties of undefined'')"

text \<open>A store all of whose operations succeed.\<close>

definition reliable :: "KVNamespace \<Rightarrow> bool" where
  "reliable store = (\<forall>op. failure store op = None)"

text \<open>The store after every visible key under a prefix has been deleted.\<close>

definition invalidated :: "jsstring \<Rightarrow> KVNamespace \<Rightarrow> KVNamespace" where
  "invalidated p store =
     store\<lparr>entries :=
       filter (\<lambda>e. fst e \<notin> set (map fst (filter (\<lambda>e. startsWith (fst e) p) (live store))))
         (entries store)\<rparr>"

text \<open>Every entry under a prefix has expired.\<close>

definition all_expired :: "jsstring \<Rightarrow> KVNamespace \<Rightarrow> bool" where
  "all_expired p store =
     (\<forall>e \<in> set (entries store). startsWith (fst e) p \<longrightarrow> snd (snd e) \<le> clock store)"

subsection \<open>Reading\<close>

text \<open>The body of the \<open>try\<close> block of \<open>getCachedData\<close>, then the function with its \<open>catch\<close>.\<close>

definition getCachedData_try ::
  "(jsstring \<Rightarrow> thrown + jsvalue) \<Rightarrow> jsstring \<Rightarrow> KVNamespace option \<Rightarrow> thrown + jsvalue" where
  "getCachedData_try parse cacheKey kv =
     (case kv of
        None \<Rightarrow> Inr JNull
      | Some store \<Rightarrow>
          (case kv_get_json parse cacheKey store of
             Inl e \<Rightarrow> Inl e
           | Inr cached \<Rightarrow> if cached \<noteq> JNull then Inr cached else Inr JNull))"

definition getCachedData ::
  "(jsstring \<Rightarrow> thrown + jsvalue) \<Rightarrow> jsstring \<Rightarrow> KVNamespace option \<Rightarrow> thrown + jsvalue" where
  "getCachedData parse cacheKey kv =
     (case getCachedData_try parse cacheKey kv of
        Inl e \<Rightarrow> Inr JNull
      | Inr v \<Rightarrow> Inr v)"

subsection \<open>Writing\<close>

text \<open>
  \<open>new Blob([text]).size\<close>: the length of the UTF-8 encoding.  A surrogate pair
  encodes one code point in four bytes; a lone surrogate is replaced by U+FFFD,
  three bytes.
\<close>

fun utf8_size :: "jsstring \<Rightarrow> nat" where
  "utf8_size [] = 0"
| "utf8_size [c] = (if c < 128 then 1 else if c < 2048 then 2 else 3)"
| "utf8_size (c # d # cs) =
     (if c < 128 then 1 + utf8_size (d # cs)
      else if c < 2048 then 2 + utf8_size (d # cs)
      else if 55296 \<le> c \<and> c < 56320 \<and> 56320 \<le> d \<and> d < 57344 then 4 + utf8_size cs
      else 3 + utf8_size (d # cs))"

definition size_limit :: nat where
  "size_limit = 25 * 1024 * 1024"

definition setCachedData_try ::
  "(jsvalue \<Rightarrow> jsstring) \<Rightarrow> jsstring \<Rightarrow> jsvalue \<Rightarrow> KVNamespace option \<Rightarrow> nat
     \<Rightarrow> (thrown + unit) \<times> KVNamespace option" where
  "setCachedData_try stringify cacheKey data kv ttlSeconds =
     (let serializedData = stringify data;
          dataSize = utf8_size serializedData
      in if dataSize > size_limit then (Inr (), kv)
         else (case kv of
                 None \<Rightarrow> (Inl TypeError_undefined, kv)
               | Some store \<Rightarrow>
                   (case kv_put cacheKey serializedData ttlSeconds store of
                      Inl e \<Rightarrow> (Inl e, kv)
                    | Inr store' \<Rightarrow> (Inr (), Some store'))))"

definition setCachedData ::
  "(jsvalue \<Rightarrow> jsstring) \<Rightarrow> jsstring \<Rightarrow> jsvalue \<Rightarrow> KVNamespace option \<Rightarrow> nat
     \<Rightarrow> (thrown + unit) \<times> KVNamespace option" where
  "setCachedData stringify cacheKey data kv ttlSeconds =
     (case setCachedData_try stringify cacheKey data kv ttlSeconds of
        (Inl e, kv') \<Rightarrow> (Inr (), kv')
      | (Inr u, kv') \<Rightarrow> (Inr u, kv'))"

subsection \<open>Invalidation\<close>

text \<open>
  \<open>Promise.all(keys.map(key => kv.delete(key.name)))\<close>: every delete is issued; the
  result is the first rejection, if any.
\<close>

fun delete_all :: "jsstring list \<Rightarrow> KVNamespace \<Rightarrow> thrown option \<times> KVNamespace" where
  "delete_all [] kv = (None, kv)"
| "delete_all (key # keys) kv =
     (case kv_delete key kv of
        Inl e \<Rightarrow> (Some e, snd (delete_all keys kv))
      | Inr kv' \<Rightarrow> delete_all keys kv')"

definition invalidateCachePattern_try ::
  "jsstring \<Rightarrow> KVNamespace option \<Rightarrow> (thrown + unit) \<times> KVNamespace option" where
  "invalidateCachePattern_try pattern kv =
     (case kv of
        None \<Rightarrow> (Inl TypeError_undefined, kv)
      | Some store \<Rightarrow>
          (case kv_list pattern store of
             Inl e \<Rightarrow> (Inl e, kv)
           | Inr keys \<Rightarrow>
               if length keys > 0
               then (case delete_all keys store of
                       (Some e, store') \<Rightarrow> (Inl e, Some store')
                     | (None, store') \<Rightarrow> (Inr (), Some store'))
               else (Inr (), kv)))"

definition invalidateCachePattern ::
  "jsstring \<Rightarrow> KVNamespace option \<Rightarrow> (thrown + unit) \<times> KVNamespace option" where
  "invalidateCachePattern pattern kv =
     (case invalidateCachePattern_try pattern kv of
        (Inl e, kv') \<Rightarrow> (Inr (), kv')
      | (Inr u, kv') \<Rightarrow> (Inr u, kv'))"

subsection \<open>Cache-aside read\<close>

text \<open>
  The loader runs against the rest of the world (the data-access layer), threaded
  through as \<open>w\<close>; it may throw.  The \<open>try\<close> around \<open>setCachedData\<close> swallows
  whatever it throws.
\<close>

definition getOrSetCache ::
  "(jsvalue \<Rightarrow> jsstring) \<Rightarrow> (jsstring \<Rightarrow> thrown + jsvalue) \<Rightarrow> jsstring \<Rightarrow> KVNamespace option
     \<Rightarrow> ('w \<Rightarrow> (thrown + jsvalue) \<times> 'w) \<Rightarrow> nat \<Rightarrow> 'w
     \<Rightarrow> (thrown + jsvalue) \<times> KVNamespace option \<times> 'w" where
  "getOrSetCache stringify parse cacheKey kv dataFetcher ttlSeconds w =
     (case getCachedData parse cacheKey kv of
        Inl e \<Rightarrow> (Inl e, kv, w)
      | Inr cached \<Rightarrow>
          if cached \<noteq> JNull then (Inr cached, kv, w)
          else (case dataFetcher w of
                  (Inl e, w') \<Rightarrow> (Inl e, kv, w')
                | (Inr data, w') \<Rightarrow>
                    (Inr data, snd (setCachedData stringify cacheKey data kv ttlSeconds), w')))"

section \<open>Strings and numbers of the runtime\<close>

text \<open>
  The white space and line terminators that \<open>String.prototype.trim\<close> and
  \<open>parseInt\<close> skip.
\<close>

definition isWhiteSpace :: "nat \<Rightarrow> bool" where
  "isWhiteSpace c =
     (c \<in> {9, 10, 11, 12, 13, 32, 160, 5760, 8232, 8233, 8239, 8287, 12288, 65279} \<or>
      (8192 \<le> c \<and> c \<le> 8202))"

definition trim :: "jsstring \<Rightarrow> jsstring" where
  "trim s = rev (dropWhile isWhiteSpace (rev (dropWhile isWhiteSpace s)))"

text \<open>
  The result of \<open>parseInt\<close>: \<open>NaN\<close> or an integer.  The integer is the
  mathematical value of the digits; the runtime rounds it to a double above
  \<open>2^53\<close>, which no property below depends on.
\<close>

datatype number = NaN | Finite int

text \<open>The value of a digit in radix up to 36; 36 for a character that is no digit.\<close>

definition digitValue :: "nat \<Rightarrow> nat" where
  "digitValue c =
     (if 48 \<le> c \<and> c \<le> 57 then c - 48
      else if 97 \<le> c \<and> c \<le> 122 then c - 87
      else if 65 \<le> c \<and> c \<le> 90 then c - 55
      else 36)"

text \<open>
  \<open>parseInt(string, radix)\<close>, radix \<open>0\<close> standing for an omitted radix: leading
  white space is skipped, a sign is read, a \<open>0x\<close> prefix selects radix 16 when the
  radix is omitted or 16, and the longest prefix of digits is the value.  No digit at
  all gives \<open>NaN\<close>; whatever follows the digits is ignored.
\<close>

definition parseInt :: "jsstring \<Rightarrow> nat \<Rightarrow> number" where
  "parseInt string radix =
     (let S = dropWhile isWhiteSpace string;
          sign = (case S of c # _ \<Rightarrow> if c = 45 then - 1 else 1 | [] \<Rightarrow> (1::int));
          S1 = (case S of c # rest \<Rightarrow> if c = 43 \<or> c = 45 then rest else S | [] \<Rightarrow> S);
          stripPrefix = (radix = 0 \<or> radix = 16);
          R = (if radix = 0 then 10 else radix);
          hex = (stripPrefix \<and> (take 2 S1 = str ''0x'' \<or> take 2 S1 = str ''0X''));
          S2 = (if hex then drop 2 S1 else S1);
          R2 = (if hex then 16 else R);
          Z = takeWhile (\<lambda>c. digitValue c < R2) S2
      in if radix \<noteq> 0 \<and> (radix < 2 \<or> 36 < radix) then NaN
         else if Z = [] then NaN
         else Finite (sign * int (foldl (\<lambda>acc c. acc * R2 + digitValue c) 0 Z)))"

text \<open>\<open>haystack.includes(needle)\<close>\<close>

definition includes_str :: "jsstring \<Rightarrow> jsstring \<Rightarrow> bool" where
  "includes_str haystack needle =
     list_ex (\<lambda>i. take (length needle) (drop i haystack) = needle) [0 ..< Suc (length haystack)]"

text \<open>
  Truthiness, as \<open>!value\<close> and \<open>value || other\<close> test it.
\<close>

definition falsy :: "jsvalue \<Rightarrow> bool" where
  "falsy v = (v = JUndefined \<or> v = JNull \<or> v = JBool False \<or> v = JNumber 0 \<or> v = JString [])"

text \<open>
  Strict equality \<open>===\<close>: primitives are equal when they are the same value; two
  objects read from different sources are never the same object.
\<close>

fun strict_equal :: "jsvalue \<Rightarrow> jsvalue \<Rightarrow> bool" where
  "strict_equal (JArray _) _ = False"
| "strict_equal (JObject _) _ = False"
| "strict_equal a b = (a = b)"

text \<open>
  Property assignment \<open>obj.key = v\<close> on an object.  On anything else the
  assignment adds nothing that serialisation would show.
\<close>

fun assign_prop :: "jsvalue \<Rightarrow> jsstring \<Rightarrow> jsvalue \<Rightarrow> jsvalue" where
  "assign_prop (JObject ps) k v = JObject (AList.update k v ps)"
| "assign_prop other k v = other"

section \<open>Form data\<close>

record File =
  file_name :: jsstring
  file_size :: nat
  file_type :: jsstring

datatype FormDataEntryValue = FormString jsstring | FormFile File

type_synonym FormData = "(jsstring \<times> FormDataEntryValue) list"

definition getStringField :: "FormData \<Rightarrow> jsstring \<Rightarrow> jsstring option" where
  "getStringField formData fieldName =
     (case map_of formData fieldName of
        None \<Rightarrow> None
      | Some (FormFile _) \<Rightarrow> None
      | Some (FormString v) \<Rightarrow>
          (let trimmed = trim v in if length trimmed > 0 then Some trimmed else None))"

definition getIntegerField :: "FormData \<Rightarrow> jsstring \<Rightarrow> int option" where
  "getIntegerField formData fieldName =
     (case getStringField formData fieldName of
        None \<Rightarrow> None
      | Some v \<Rightarrow> (case parseInt v 10 of NaN \<Rightarrow> None | Finite parsed \<Rightarrow> Some parsed))"

definition getJsonArrayField ::
  "(jsstring \<Rightarrow> thrown + jsvalue) \<Rightarrow> FormData \<Rightarrow> jsstring \<Rightarrow> jsvalue list option" where
  "getJsonArrayField parse formData fieldName =
     (case getStringField formData fieldName of
        None \<Rightarrow> None
      | Some v \<Rightarrow>
          (case parse v of
             Inl e \<Rightarrow> None
           | Inr (JArray parsed) \<Rightarrow> Some parsed
           | Inr _ \<Rightarrow> None))"

definition getFileField :: "FormData \<Rightarrow> jsstring \<Rightarrow> File option" where
  "getFileField formData fieldName =
     (case map_of formData fieldName of
        None \<Rightarrow> None
      | Some (FormString _) \<Rightarrow> None
      | Some (FormFile f) \<Rightarrow> if file_size f = 0 then None else Some f)"

section \<open>Validation schemas\<close>

text \<open>
  The schemas are declarations for the validation library \<open>zod\<close>; what follows is
  what the library does with them.  An issue carries the path of the offending value,
  its message, and whether validation goes on after it: a value of the wrong type (or
  outside an enumeration, or not an integer) stops the checks and refinements that
  would follow; a failed length or range check does not.
\<close>

datatype segment = Key jsstring | Index nat

record Issue =
  issue_path :: "segment list"
  issue_message :: jsstring
  issue_continue :: bool

definition issue :: "jsstring \<Rightarrow> bool \<Rightarrow> Issue" where
  "issue m c = \<lparr>issue_path = [], issue_message = m, issue_continue = c\<rparr>"

definition prefixIssues :: "segment \<Rightarrow> Issue list \<Rightarrow> Issue list" where
  "prefixIssues seg issues = map (\<lambda>i. i\<lparr>issue_path := seg # issue_path i\<rparr>) issues"

definition aborted :: "Issue list \<Rightarrow> bool" where
  "aborted issues = list_ex (\<lambda>i. \<not> issue_continue i) issues"

text \<open>The library's default message for a value of the wrong type.\<close>

definition parsedType :: "jsvalue \<Rightarrow> jsstring" where
  "parsedType v =
     (case v of
        JUndefined \<Rightarrow> str ''undefined''
      | JNull \<Rightarrow> str ''null''
      | JBool _ \<Rightarrow> str ''boolean''
      | JNumber _ \<Rightarrow> str ''number''
      | JString _ \<Rightarrow> str ''string''
      | JArray _ \<Rightarrow> str ''array''
      | JObject _ \<Rightarrow> str ''object'')"

definition invalid_type_message :: "jsstring \<Rightarrow> jsvalue \<Rightarrow> jsstring" where
  "invalid_type_message expected v =
     str ''Invalid input: expected '' @ expected @ str '', received '' @ parsedType v"

text \<open>
  A schema maps an input to the issues found and the output value.  String checks run
  in the order they are chained: \<open>.min\<close> and \<open>.max\<close> see the string as given,
  \<open>.trim()\<close> then trims the output.
\<close>

type_synonym schema = "jsvalue \<Rightarrow> Issue list \<times> jsvalue"

definition title_schema :: schema where
  "title_schema input =
     (case input of
        JString s \<Rightarrow>
          ((if length s < 10 then [issue (str ''Title must be at least 10 characters'') True] else []) @
           (if 150 < length s then [issue (str ''Title must not exceed 150 characters'') True] else []),
           JString (trim s))
      | _ \<Rightarrow>
          ([issue (if input = JUndefined then str ''Title is required''
                   else str ''Title must be a string'') False], input))"

definition description_schema :: schema where
  "description_schema input =
     (case input of
        JString s \<Rightarrow>
          ((if length s < 100 then [issue (str ''Description must be at least 100 characters'') True] else []),
           JString (trim s))
      | _ \<Rightarrow>
          ([issue (if input = JUndefined then str ''Description is required''
                   else str ''Description must be a string'') False], input))"

definition type_schema :: schema where
  "type_schema input =
     (if input = JString (str ''local'') \<or> input = JString (str ''national'') then ([], input)
      else ([issue (if input = JUndefined then str ''Petition type is required''
                    else str ''Petition type must be either \"local\" or \"national\"'') False], input))"

definition optional :: "schema \<Rightarrow> schema" where
  "optional inner input = (if input = JUndefined then ([], JUndefined) else inner input)"

definition location_schema :: schema where
  "location_schema =
     optional (\<lambda>input. case input of
        JString s \<Rightarrow> ([], JString (trim s))
      | _ \<Rightarrow> ([issue (str ''Location must be a string'') False], input))"

text \<open>
  \<open>z.number().int().min(1).max(1000000)\<close>: a number that is not an integer stops the
  checks; an integer outside the safe range fails the integer check and goes on.
\<close>

definition target_count_checks :: schema where
  "target_count_checks input =
     (case input of
        JNumber n \<Rightarrow>
          (if of_int \<lfloor>n\<rfloor> \<noteq> n then ([issue (str ''Target count must be an integer'') False], input)
           else
             ((if n < - 9007199254740991 \<or> 9007199254740991 < n
               then [issue (str ''Target count must be an integer'') True] else []) @
              (if n < 1 then [issue (str ''Target count must be at least 1'') True] else []) @
              (if 1000000 < n then [issue (str ''Target count must not exceed 1,000,000'') True] else []),
              input))
      | _ \<Rightarrow> ([issue (str ''Target count must be a number'') False], input))"

text \<open>\<open>.default(1000)\<close>: an absent value becomes 1000 and is not checked.\<close>

definition target_count_schema :: schema where
  "target_count_schema input =
     (if input = JUndefined then ([], JNumber 1000) else target_count_checks input)"

fun category_issues :: "nat \<Rightarrow> jsvalue list \<Rightarrow> Issue list" where
  "category_issues i [] = []"
| "category_issues i (x # xs) =
     (case x of
        JNumber _ \<Rightarrow> []
      | _ \<Rightarrow> prefixIssues (Index i) [issue (str ''Category ID must be a number'') False])
     @ category_issues (Suc i) xs"

definition category_ids_schema :: schema where
  "category_ids_schema =
     optional (\<lambda>input. case input of
        JArray xs \<Rightarrow> (category_issues 0 xs, input)
      | _ \<Rightarrow> ([issue (invalid_type_message (str ''array'') input) False], input))"

definition string_schema :: schema where
  "string_schema input =
     (case input of
        JString s \<Rightarrow> ([], input)
      | _ \<Rightarrow> ([issue (invalid_type_message (str ''string'') input) False], input))"

definition status_schema :: schema where
  "status_schema input =
     (if input = JString (str ''active'') \<or> input = JString (str ''completed'') \<or>
         input = JString (str ''closed'') then ([], input)
      else ([issue (str ''Status must be one of: active, completed, closed'') False], input))"

text \<open>
  \<open>z.object(shape)\<close>: anything but an object is a type error; otherwise each key of
  the shape is parsed in turn, its issues are prefixed with the key, and its output,
  unless \<open>undefined\<close>, becomes a property of the result.  Keys outside the shape
  are dropped.
\<close>

definition object_schema :: "(jsstring \<times> schema) list \<Rightarrow> schema" where
  "object_schema shape input =
     (case input of
        JObject _ \<Rightarrow>
          (concat (map (\<lambda>(k, sch). prefixIssues (Key k) (fst (sch (prop_of input k)))) shape),
           JObject (concat (map (\<lambda>(k, sch).
              (let v = snd (sch (prop_of input k)) in if v = JUndefined then [] else [(k, v)])) shape)))
      | _ \<Rightarrow> ([issue (invalid_type_message (str ''object'') input) False], input))"

text \<open>
  \<open>.refine(check, { message, path })\<close>: the check runs on the output unless an
  earlier issue stopped validation; when it fails, its issue is added.
\<close>

definition refine :: "(jsvalue \<Rightarrow> bool) \<Rightarrow> Issue \<Rightarrow> schema \<Rightarrow> schema" where
  "refine check iss inner input =
     (let r = inner input
      in if aborted (fst r) then r
         else if check (snd r) then r
         else (fst r @ [iss], snd r))"

definition basePetitionFields :: "(jsstring \<times> schema) list" where
  "basePetitionFields =
     [(str ''title'', title_schema),
      (str ''description'', description_schema),
      (str ''type'', type_schema),
      (str ''location'', location_schema),
      (str ''target_count'', target_count_schema),
      (str ''category_ids'', category_ids_schema),
      (str ''image_url'', optional string_schema)]"

text \<open>
  The refinement of both schemas: a \<open>local\<close> petition needs a location that is not
  empty (after trimming).
\<close>

definition location_required :: "jsvalue \<Rightarrow> bool" where
  "location_required data =
     (if prop_of data (str ''type'') = JString (str ''local'')
      then (case prop_of data (str ''location'') of JString s \<Rightarrow> length s > 0 | _ \<Rightarrow> False)
      else True)"

text \<open>The object part of \<open>createPetitionSchema\<close>, then the schema with its refinement.\<close>

definition createPetitionObject :: schema where
  "createPetitionObject =
     object_schema (basePetitionFields @ [(str ''created_by'', string_schema)])"

definition createPetitionSchema :: schema where
  "createPetitionSchema =
     refine location_required
       \<lparr>issue_path = [Key (str ''location'')],
        issue_message = str ''Location is required for local petitions'',
        issue_continue = True\<rparr>
       createPetitionObject"

text \<open>
  \<open>.partial()\<close> makes every field optional; the repository's tests expect a partial
  update to validate to the fields that were given and nothing else.
\<close>

definition updatePetitionObject :: schema where
  "updatePetitionObject =
     object_schema (map (\<lambda>(k, sch). (k, optional sch))
       (basePetitionFields @ [(str ''status'', optional status_schema)]))"

definition updatePetitionSchema :: schema where
  "updatePetitionSchema =
     refine location_required
       \<lparr>issue_path = [Key (str ''location'')],
        issue_message = str ''Location is required when changing petition type to local'',
        issue_continue = True\<rparr>
       updatePetitionObject"

definition safeParse :: "schema \<Rightarrow> jsvalue \<Rightarrow> Issue list + jsvalue" where
  "safeParse sch input = (case sch input of ([], v) \<Rightarrow> Inr v | (issues, v) \<Rightarrow> Inl issues)"

definition segment_string :: "segment \<Rightarrow> jsstring" where
  "segment_string seg = (case seg of Key k \<Rightarrow> k | Index i \<Rightarrow> Number_toString 10 i)"

definition formatZodError :: "Issue list \<Rightarrow> FieldError list" where
  "formatZodError issues =
     map (\<lambda>i. \<lparr>field = Array_join (str ''.'') (map segment_string (issue_path i)),
               message = issue_message i\<rparr>) issues"

section \<open>Collaborators\<close>

record AuthenticatedUser =
  user_id :: jsvalue
  user_email :: jsvalue
  user_name :: jsvalue
  user_image :: jsvalue

text \<open>What the session endpoint answers: \<open>response.ok\<close> and \<open>response.json()\<close>.\<close>

record AuthResponse =
  auth_ok :: bool
  auth_json :: "thrown + jsvalue"

text \<open>
  Modelled from the spec: the data-access layer (\<open>DatabaseService\<close>), the object
  store (\<open>env.IMAGES\<close>) and the session provider (\<open>Auth\<close>) are specified at
  their interface only.  Each operation acts on the rest of the world \<open>'w\<close> and may
  throw.  \<open>IMAGES_put\<close> receives the path and the file; the metadata the source
  passes along is made of the two.
\<close>

record 'w Services =
  createPetition :: "jsvalue \<Rightarrow> 'w \<Rightarrow> (thrown + jsvalue) \<times> 'w"
  updatePetition :: "jsvalue \<Rightarrow> jsvalue \<Rightarrow> 'w \<Rightarrow> (thrown + jsvalue) \<times> 'w"
  deletePetition :: "jsvalue \<Rightarrow> 'w \<Rightarrow> (thrown + jsvalue) \<times> 'w"
  getPetitionById :: "jsvalue \<Rightarrow> 'w \<Rightarrow> (thrown + jsvalue) \<times> 'w"
  getUserPetitions :: "jsstring \<Rightarrow> 'w \<Rightarrow> (thrown + jsvalue) \<times> 'w"
  getAllPetitions ::
    "number \<Rightarrow> number \<Rightarrow> jsstring option \<Rightarrow> int list option \<Rightarrow> 'w \<Rightarrow> (thrown + jsvalue) \<times> 'w"
  IMAGES_put :: "jsstring \<Rightarrow> File \<Rightarrow> 'w \<Rightarrow> (thrown + unit) \<times> 'w"
  Auth :: "Request \<Rightarrow> 'w \<Rightarrow> (thrown + AuthResponse) \<times> 'w"

text \<open>
  What the language runtime contributes: \<open>JSON.stringify\<close>, \<open>JSON.parse\<close>,
  \<open>localeCompare\<close>, the conversion of a value to a string in a template literal, and
  \<open>new Date().toUTCString()\<close>.
\<close>

record Runtime =
  rt_stringify :: "jsvalue \<Rightarrow> jsstring"
  rt_parse :: "jsstring \<Rightarrow> thrown + jsvalue"
  rt_localeCompare :: "jsstring \<Rightarrow> jsstring \<Rightarrow> int"
  rt_ToString :: "jsvalue \<Rightarrow> jsstring"
  rt_date :: jsstring

text \<open>
  The event context of a handler: the request, the environment, \<open>params.id\<close>,
  \<open>data.user\<close>, and what reading the body as form data or as JSON gives.
\<close>

record Context =
  ctx_request :: Request
  ctx_env :: Env
  params_id :: jsstring
  data_user :: "AuthenticatedUser option"
  request_formData :: "thrown + FormData"
  request_json :: "thrown + jsvalue"

section \<open>Authentication and ownership\<close>

text \<open>
  \<open>getAuthenticatedUser\<close>: the session request carries the cookies of the request;
  a failure of any kind, an answer that is not ok and a session without a user id all
  give \<open>null\<close>.
\<close>

definition getAuthenticatedUser ::
  "'w Services \<Rightarrow> Request \<Rightarrow> Env \<Rightarrow> 'w \<Rightarrow> AuthenticatedUser option \<times> 'w" where
  "getAuthenticatedUser svc request env w =
     (case Auth svc request w of
        (Inl e, w') \<Rightarrow> (None, w')
      | (Inr response, w') \<Rightarrow>
          if \<not> auth_ok response then (None, w')
          else (case auth_json response of
                  Inl e \<Rightarrow> (None, w')
                | Inr session \<Rightarrow>
                    (let user = prop_of session (str ''user'')
                     in if falsy (prop_of user (str ''id'')) then (None, w')
                        else (Some \<lparr>user_id = prop_of user (str ''id''),
                                     user_email = prop_of user (str ''email''),
                                     user_name = prop_of user (str ''name''),
                                     user_image = prop_of user (str ''image'')\<rparr>, w'))))"

definition json_response :: "nat \<Rightarrow> jsvalue \<Rightarrow> Request \<Rightarrow> Env \<Rightarrow> Response" where
  "json_response st payload request env =
     \<lparr>status = st,
      headers = spread (getCorsHeaders request env) [(str ''Content-Type'', str ''application/json'')],
      body = Some payload\<rparr>"

definition requireAuthentication ::
  "'w Services \<Rightarrow> Request \<Rightarrow> Env \<Rightarrow> 'w \<Rightarrow> (Response + AuthenticatedUser) \<times> 'w" where
  "requireAuthentication svc request env w =
     (case getAuthenticatedUser svc request env w of
        (None, w') \<Rightarrow>
          (Inl (json_response 401
             (JObject [(str ''error'', JString (str ''Authentication required'')),
                       (str ''message'', JString (str ''You must be signed in to perform this action''))])
             request env), w')
      | (Some user, w') \<Rightarrow> (Inr user, w'))"

definition requirePetitionOwnership ::
  "'w Services \<Rightarrow> Request \<Rightarrow> Env \<Rightarrow> jsvalue \<Rightarrow> 'w \<Rightarrow> (Response + AuthenticatedUser) \<times> 'w" where
  "requirePetitionOwnership svc request env petitionId w =
     (case requireAuthentication svc request env w of
        (Inl authResult, w1) \<Rightarrow> (Inl authResult, w1)
      | (Inr user, w1) \<Rightarrow>
          (case getPetitionById svc petitionId w1 of
             (Inl e, w2) \<Rightarrow>
               (Inl (json_response 500
                  (JObject [(str ''error'', JString (str ''Internal server error''))]) request env), w2)
           | (Inr petition, w2) \<Rightarrow>
               if falsy petition
               then (Inl (json_response 404
                  (JObject [(str ''error'', JString (str ''Petition not found''))]) request env), w2)
               else if \<not> strict_equal (prop_of petition (str ''created_by'')) (user_id user)
               then (Inl (json_response 403
                  (JObject [(str ''error'', JString (str ''Forbidden'')),
                            (str ''message'', JString (str ''You can only modify petitions you created''))])
                  request env), w2)
               else (Inr user, w2)))"

section \<open>The handlers\<close>

subsection \<open>Image upload\<close>

text \<open>\<open>imageFile.name.split('.').pop() || 'jpg'\<close>\<close>

definition image_extension :: "File \<Rightarrow> jsstring" where
  "image_extension f =
     (let ext = rev (takeWhile (\<lambda>c. c \<noteq> 46) (rev (file_name f)))
      in if ext = [] then str ''jpg'' else ext)"

text \<open>
  The \<open>try\<close> block of the image step, shared by create and update: upload under
  \<open>petitions/{id}/image.{extension}\<close>, then record the URL on the petition row.
  The metadata calls \<open>toString()\<close> on the id, which throws for an absent id
  before anything is uploaded.
\<close>

definition upload_image_try ::
  "'w Services \<Rightarrow> Runtime \<Rightarrow> jsvalue \<Rightarrow> File \<Rightarrow> 'w \<Rightarrow> (thrown + jsstring) \<times> 'w" where
  "upload_image_try svc rt petitionId imageFile w =
     (let extension = image_extension imageFile;
          filename = str ''petitions/'' @ rt_ToString rt petitionId @ str ''/image.'' @ extension
      in if petitionId = JUndefined \<or> petitionId = JNull then (Inl TypeError_undefined, w)
         else (case IMAGES_put svc filename imageFile w of
                 (Inl e, w1) \<Rightarrow> (Inl e, w1)
               | (Inr u, w1) \<Rightarrow>
                   (let imageUrl = str ''https://images.petition.ph/'' @ filename
                    in case updatePetition svc petitionId
                              (JObject [(str ''image_url'', JString imageUrl)]) w1 of
                         (Inl e, w2) \<Rightarrow> (Inl e, w2)
                       | (Inr u', w2) \<Rightarrow> (Inr imageUrl, w2))))"

text \<open>
  The image step with its guard and its \<open>catch\<close>: a failure leaves the petition
  without an image and is not reported.
\<close>

definition upload_image ::
  "'w Services \<Rightarrow> Runtime \<Rightarrow> jsvalue \<Rightarrow> jsvalue \<Rightarrow> File option \<Rightarrow> 'w \<Rightarrow> jsvalue \<times> 'w" where
  "upload_image svc rt petitionId petition imageFile w =
     (case imageFile of
        None \<Rightarrow> (petition, w)
      | Some f \<Rightarrow>
          if file_size f > 0
          then (case upload_image_try svc rt petitionId f w of
                  (Inl e, w') \<Rightarrow> (petition, w')
                | (Inr imageUrl, w') \<Rightarrow>
                    (assign_prop petition (str ''image_url'') (JString imageUrl), w'))
          else (petition, w))"

text \<open>A property of an object literal that is only there when a value was given.\<close>

definition provided :: "jsstring \<Rightarrow> jsvalue option \<Rightarrow> (jsstring \<times> jsvalue) list" where
  "provided k v = (case v of None \<Rightarrow> [] | Some x \<Rightarrow> [(k, x)])"

definition or_undefined :: "jsvalue option \<Rightarrow> jsvalue" where
  "or_undefined v = (case v of None \<Rightarrow> JUndefined | Some x \<Rightarrow> x)"

definition is_multipart :: "Request \<Rightarrow> bool" where
  "is_multipart request =
     includes_str (case Content_Type request of None \<Rightarrow> [] | Some v \<Rightarrow> v) (str ''multipart/form-data'')"

subsection \<open>GET, PUT and DELETE on one petition\<close>

text \<open>The loader of the GET branch: a missing petition is an error.\<close>

definition petition_loader :: "'w Services \<Rightarrow> jsvalue \<Rightarrow> 'w \<Rightarrow> (thrown + jsvalue) \<times> 'w" where
  "petition_loader svc petitionId w =
     (case getPetitionById svc petitionId w of
        (Inl e, w') \<Rightarrow> (Inl e, w')
      | (Inr result, w') \<Rightarrow>
          if falsy result then (Inl (ErrorInstance (str ''Petition not found'')), w')
          else (Inr result, w'))"

text \<open>The update payload and the image file, from form data or from JSON.\<close>

definition update_payload :: "Runtime \<Rightarrow> Context \<Rightarrow> thrown + (jsvalue \<times> File option)" where
  "update_payload rt ctx =
     (if is_multipart (ctx_request ctx)
      then (case request_formData ctx of
              Inl e \<Rightarrow> Inl e
            | Inr formData \<Rightarrow>
                Inr (JObject
                  (provided (str ''title'') (map_option JString (getStringField formData (str ''title''))) @
                   provided (str ''description'') (map_option JString (getStringField formData (str ''description''))) @
                   provided (str ''type'') (map_option JString (getStringField formData (str ''type''))) @
                   provided (str ''location'') (map_option JString (getStringField formData (str ''location''))) @
                   provided (str ''target_count'')
                     (map_option (\<lambda>n. JNumber (of_int n)) (getIntegerField formData (str ''target_count''))) @
                   provided (str ''category_ids'')
                     (map_option JArray (getJsonArrayField (rt_parse rt) formData (str ''category_ids''))) @
                   provided (str ''status'') (map_option JString (getStringField formData (str ''status'')))),
                   getFileField formData (str ''image'')))
      else (case request_json ctx of
              Inl e \<Rightarrow> Inl e
            | Inr petitionData \<Rightarrow> Inr (petitionData, None)))"

text \<open>The two invalidations after an update or a delete, then the success response.\<close>

definition invalidate_both ::
  "jsvalue \<Rightarrow> KVNamespace option \<Rightarrow> 'w \<Rightarrow> (thrown + Response) \<times> KVNamespace option \<times> 'w" where
  "invalidate_both payload kv w =
     (case invalidateCachePattern (str ''petitions:'') kv of
        (Inl e, kv1) \<Rightarrow> (Inl e, kv1, w)
      | (Inr u, kv1) \<Rightarrow>
          (case invalidateCachePattern (str ''petition:'') kv1 of
             (Inl e, kv2) \<Rightarrow> (Inl e, kv2, w)
           | (Inr u', kv2) \<Rightarrow> (Inr (createSuccessResponse payload), kv2, w)))"

definition handle_put ::
  "'w Services \<Rightarrow> Runtime \<Rightarrow> Context \<Rightarrow> jsvalue \<Rightarrow> KVNamespace option \<Rightarrow> 'w
     \<Rightarrow> (thrown + Response) \<times> KVNamespace option \<times> 'w" where
  "handle_put svc rt ctx petitionId kv w =
     (case update_payload rt ctx of
        Inl e \<Rightarrow> (Inl e, kv, w)
      | Inr (petitionData, imageFile) \<Rightarrow>
          (case safeParse updatePetitionSchema petitionData of
             Inl issues \<Rightarrow>
               (Inr (createValidationErrorResponse (formatZodError issues)
                  (ctx_request ctx) (ctx_env ctx)), kv, w)
           | Inr validatedData \<Rightarrow>
               (case updatePetition svc petitionId validatedData w of
                  (Inl e, w1) \<Rightarrow> (Inl e, kv, w1)
                | (Inr updatedPetition, w1) \<Rightarrow>
                    (case upload_image svc rt petitionId updatedPetition imageFile w1 of
                       (updated, w2) \<Rightarrow> invalidate_both updated kv w2))))"

definition handle_delete ::
  "'w Services \<Rightarrow> jsvalue \<Rightarrow> KVNamespace option \<Rightarrow> 'w
     \<Rightarrow> (thrown + Response) \<times> KVNamespace option \<times> 'w" where
  "handle_delete svc petitionId kv w =
     (case deletePetition svc petitionId w of
        (Inl e, w1) \<Rightarrow> (Inl e, kv, w1)
      | (Inr u, w1) \<Rightarrow>
          invalidate_both
            (JObject [(str ''message'', JString (str ''Petition deleted successfully''))]) kv w1)"

definition handle_get ::
  "'w Services \<Rightarrow> Runtime \<Rightarrow> Context \<Rightarrow> jsvalue \<Rightarrow> KVNamespace option \<Rightarrow> 'w
     \<Rightarrow> (thrown + Response) \<times> KVNamespace option \<times> 'w" where
  "handle_get svc rt ctx petitionId kv w =
     (let cacheKey = generateCacheKey (rt_localeCompare rt) (ctx_request ctx) (str ''petition'')
      in case getOrSetCache (rt_stringify rt) (rt_parse rt) cacheKey kv
                (petition_loader svc petitionId) (10 * 60) w of
           (Inl e, kv', w') \<Rightarrow> (Inl e, kv', w')
         | (Inr petition, kv', w') \<Rightarrow>
             (Inr (createCachedResponse (rt_stringify rt) (rt_date rt) petition
                (ctx_request ctx) (ctx_env ctx) (10 * 60)), kv', w'))"

text \<open>The body of the \<open>try\<close> block of the handler for \<open>/api/petitions/{id}\<close>.\<close>

definition onRequest_petition_try ::
  "'w Services \<Rightarrow> Runtime \<Rightarrow> Context \<Rightarrow> KVNamespace option \<Rightarrow> 'w
     \<Rightarrow> (thrown + Response) \<times> KVNamespace option \<times> 'w" where
  "onRequest_petition_try svc rt ctx kv w =
     (case parseInt (params_id ctx) 0 of
        NaN \<Rightarrow>
          (Inr (createCachedErrorResponse (NotAnError (JString (str ''Invalid petition ID'')))
             (ctx_request ctx) (ctx_env ctx) 400), kv, w)
      | Finite n \<Rightarrow>
          (let petitionId = JNumber (of_int n)
           in if http_method (ctx_request ctx) = str ''GET'' then handle_get svc rt ctx petitionId kv w
              else if http_method (ctx_request ctx) = str ''PUT'' then handle_put svc rt ctx petitionId kv w
              else if http_method (ctx_request ctx) = str ''DELETE'' then handle_delete svc petitionId kv w
              else (Inr (createCachedErrorResponse (NotAnError (JString (str ''Method not allowed'')))
                      (ctx_request ctx) (ctx_env ctx) 405), kv, w)))"

text \<open>The handler: the preflight answer first, then the \<open>try\<close> block and its \<open>catch\<close>.\<close>

definition onRequest_petition ::
  "'w Services \<Rightarrow> Runtime \<Rightarrow> Context \<Rightarrow> KVNamespace option \<Rightarrow> 'w
     \<Rightarrow> Response \<times> KVNamespace option \<times> 'w" where
  "onRequest_petition svc rt ctx kv w =
     (case handleCORS (ctx_request ctx) (ctx_env ctx) of
        Some corsResponse \<Rightarrow> (corsResponse, kv, w)
      | None \<Rightarrow>
          (case onRequest_petition_try svc rt ctx kv w of
             (Inl e, kv', w') \<Rightarrow>
               (createCachedErrorResponse e (ctx_request ctx) (ctx_env ctx) 500, kv', w')
           | (Inr response, kv', w') \<Rightarrow> (response, kv', w')))"

subsection \<open>POST and GET on the collection\<close>

text \<open>
  The create payload and the image file.  From JSON, \<open>created_by\<close> is assigned on
  the parsed body, which throws when the body is \<open>null\<close> or a primitive.
\<close>

definition create_payload ::
  "Runtime \<Rightarrow> Context \<Rightarrow> AuthenticatedUser \<Rightarrow> thrown + (jsvalue \<times> File option)" where
  "create_payload rt ctx user =
     (if is_multipart (ctx_request ctx)
      then (case request_formData ctx of
              Inl e \<Rightarrow> Inl e
            | Inr formData \<Rightarrow>
                Inr (JObject
                  [(str ''title'',
                      JString (case getStringField formData (str ''title'') of None \<Rightarrow> [] | Some t \<Rightarrow> t)),
                   (str ''description'',
                      JString (case getStringField formData (str ''description'') of None \<Rightarrow> [] | Some d \<Rightarrow> d)),
                   (str ''type'',
                      JString (case getStringField formData (str ''type'') of
                                 None \<Rightarrow> str ''national'' | Some t \<Rightarrow> t)),
                   (str ''location'', or_undefined (map_option JString (getStringField formData (str ''location'')))),
                   (str ''target_count'',
                      or_undefined (map_option (\<lambda>n. JNumber (of_int n))
                        (getIntegerField formData (str ''target_count'')))),
                   (str ''created_by'', user_id user),
                   (str ''category_ids'',
                      or_undefined (map_option JArray
                        (getJsonArrayField (rt_parse rt) formData (str ''category_ids'')))),
                   (str ''image_url'', JString [])],
                   getFileField formData (str ''image'')))
      else (case request_json ctx of
              Inl e \<Rightarrow> Inl e
            | Inr petitionData \<Rightarrow>
                (case petitionData of
                   JObject ps \<Rightarrow> Inr (assign_prop petitionData (str ''created_by'') (user_id user), None)
                 | JArray xs \<Rightarrow> Inr (petitionData, None)
                 | _ \<Rightarrow> Inl TypeError_undefined)))"

definition handle_post ::
  "'w Services \<Rightarrow> Runtime \<Rightarrow> Context \<Rightarrow> KVNamespace option \<Rightarrow> 'w
     \<Rightarrow> (thrown + Response) \<times> KVNamespace option \<times> 'w" where
  "handle_post svc rt ctx kv w =
     (case data_user ctx of
        None \<Rightarrow>
          (Inr (createCachedErrorResponse (NotAnError (JString (str ''Authentication required'')))
             (ctx_request ctx) (ctx_env ctx) 401), kv, w)
      | Some user \<Rightarrow>
          (case create_payload rt ctx user of
             Inl e \<Rightarrow> (Inl e, kv, w)
           | Inr (petitionData, imageFile) \<Rightarrow>
               (case safeParse createPetitionSchema petitionData of
                  Inl issues \<Rightarrow>
                    (Inr (createValidationErrorResponse (formatZodError issues)
                       (ctx_request ctx) (ctx_env ctx)), kv, w)
                | Inr validatedData \<Rightarrow>
                    (case createPetition svc
                            (assign_prop validatedData (str ''image_url'') (JString [])) w of
                       (Inl e, w1) \<Rightarrow> (Inl e, kv, w1)
                     | (Inr petition, w1) \<Rightarrow>
                         (case upload_image svc rt (prop_of petition (str ''id'')) petition imageFile w1 of
                            (created, w2) \<Rightarrow>
                              (case invalidateCachePattern (str ''petitions:'') kv of
                                 (Inl e, kv1) \<Rightarrow> (Inl e, kv1, w2)
                               | (Inr u, kv1) \<Rightarrow> (Inr (createSuccessResponse created), kv1, w2)))))))"

text \<open>\<open>url.searchParams.get(name)\<close> and \<open>getAll(name)\<close>\<close>

definition searchParams_get :: "Request \<Rightarrow> jsstring \<Rightarrow> jsstring option" where
  "searchParams_get request name = map_of (searchParams request) name"

definition searchParams_getAll :: "Request \<Rightarrow> jsstring \<Rightarrow> jsstring list" where
  "searchParams_getAll request name = map snd (filter (\<lambda>p. fst p = name) (searchParams request))"

text \<open>\<open>value || fallback\<close> on a string that may be \<open>null\<close>\<close>

definition or_else :: "jsstring option \<Rightarrow> jsstring \<Rightarrow> jsstring" where
  "or_else v fallback = (case v of None \<Rightarrow> fallback | Some x \<Rightarrow> if x = [] then fallback else x)"

definition finite_values :: "number list \<Rightarrow> int list" where
  "finite_values ns = concat (map (\<lambda>n. case n of NaN \<Rightarrow> [] | Finite i \<Rightarrow> [i]) ns)"

definition handle_list ::
  "'w Services \<Rightarrow> Runtime \<Rightarrow> Context \<Rightarrow> KVNamespace option \<Rightarrow> 'w
     \<Rightarrow> (thrown + Response) \<times> KVNamespace option \<times> 'w" where
  "handle_list svc rt ctx kv w =
     (let request = ctx_request ctx;
          petition_type = searchParams_get request (str ''type'');
          limit = parseInt (or_else (searchParams_get request (str ''limit'')) (str ''50'')) 0;
          offset = parseInt (or_else (searchParams_get request (str ''offset'')) (str ''0'')) 0;
          userId = searchParams_get request (str ''userId'');
          categoryParams = searchParams_getAll request (str ''category[]'');
          categoryIds = (if length categoryParams > 0
                         then Some (finite_values (map (\<lambda>p. parseInt (trim p) 0) categoryParams))
                         else None);
          cacheKey = generateCacheKey (rt_localeCompare rt) request (str ''petitions'');
          fetch = (if or_else userId [] \<noteq> []
                   then getUserPetitions svc (or_else userId [])
                   else getAllPetitions svc limit offset petition_type categoryIds)
      in if or_else userId [] \<noteq> [] \<and> data_user ctx = None
         then (Inr (createCachedErrorResponse
                 (NotAnError (JString (str ''Authentication required for user-specific petitions'')))
                 request (ctx_env ctx) 401), kv, w)
         else (case getOrSetCache (rt_stringify rt) (rt_parse rt) cacheKey kv fetch (5 * 60) w of
                 (Inl e, kv', w') \<Rightarrow> (Inl e, kv', w')
               | (Inr petitions, kv', w') \<Rightarrow>
                   (Inr (createCachedResponse (rt_stringify rt) (rt_date rt) petitions
                      request (ctx_env ctx) (5 * 60)), kv', w')))"

definition onRequest_petitions_try ::
  "'w Services \<Rightarrow> Runtime \<Rightarrow> Context \<Rightarrow> KVNamespace option \<Rightarrow> 'w
     \<Rightarrow> (thrown + Response) \<times> KVNamespace option \<times> 'w" where
  "onRequest_petitions_try svc rt ctx kv w =
     (if http_method (ctx_request ctx) = str ''POST'' then handle_post svc rt ctx kv w
      else if http_method (ctx_request ctx) = str ''GET'' then handle_list svc rt ctx kv w
      else (Inr (createCachedErrorResponse (NotAnError (JString (str ''Method not allowed'')))
              (ctx_request ctx) (ctx_env ctx) 405), kv, w))"

definition onRequest_petitions ::
  "'w Services \<Rightarrow> Runtime \<Rightarrow> Context \<Rightarrow> KVNamespace option \<Rightarrow> 'w
     \<Rightarrow> Response \<times> KVNamespace option \<times> 'w" where
  "onRequest_petitions svc rt ctx kv w =
     (case handleCORS (ctx_request ctx) (ctx_env ctx) of
        Some corsResponse \<Rightarrow> (corsResponse, kv, w)
      | None \<Rightarrow>
          (case onRequest_petitions_try svc rt ctx kv w of
             (Inl e, kv', w') \<Rightarrow>
               (createCachedErrorResponse e (ctx_request ctx) (ctx_env ctx) 500, kv', w')
           | (Inr response, kv', w') \<Rightarrow> (response, kv', w')))"

subsection \<open>Routing of mutations on one petition\<close>

text \<open>
  Modelled from the spec: the router that dispatches to the handlers is not among the
  sources.  By the spec (data model, ownership authorization and the end-to-end
  properties) a petition is mutated only by its owner: a \<open>PUT\<close> or \<open>DELETE\<close> on
  \<open>/api/petitions/{id}\<close> passes \<open>requirePetitionOwnership\<close> for that petition
  before its handler runs, and the resolved user travels on in \<open>data.user\<close>.  An
  id that is not a number goes straight to the handler, which rejects it.
\<close>

definition route_petition ::
  "'w Services \<Rightarrow> Runtime \<Rightarrow> Context \<Rightarrow> KVNamespace option \<Rightarrow> 'w
     \<Rightarrow> Response \<times> KVNamespace option \<times> 'w" where
  "route_petition svc rt ctx kv w =
     (if http_method (ctx_request ctx) = str ''PUT'' \<or> http_method (ctx_request ctx) = str ''DELETE''
      then (case parseInt (params_id ctx) 0 of
              NaN \<Rightarrow> onRequest_petition svc rt ctx kv w
            | Finite n \<Rightarrow>
                (case requirePetitionOwnership svc (ctx_request ctx) (ctx_env ctx)
                        (JNumber (of_int n)) w of
                   (Inl response, w') \<Rightarrow> (response, kv, w')
                 | (Inr user, w') \<Rightarrow>
                     onRequest_petition svc rt (ctx\<lparr>data_user := Some user\<rparr>) kv w'))
      else onRequest_petition svc rt ctx kv w)"

section \<open>Example instances\<close>

text \<open>
  An instance of the two runtime parameters for the examples: \<open>JSON.stringify\<close> and
  \<open>JSON.parse\<close> on \<open>null\<close> and on strings that need no escaping.
\<close>

definition stringify_text :: "jsvalue \<Rightarrow> jsstring" where
  "stringify_text v = (case v of JString s \<Rightarrow> [34] @ s @ [34] | _ \<Rightarrow> str ''null'')"

definition parse_text :: "jsstring \<Rightarrow> thrown + jsvalue" where
  "parse_text t =
     (if t = str ''null'' then Inr JNull
      else if 2 \<le> length t \<and> hd t = 34 \<and> last t = 34 then Inr (JString (butlast (tl t)))
      else Inl (ErrorInstance (str ''Unexpected token'')))"

text \<open>A string of \<open>size_limit + 1\<close> letters: its serialisation is over the limit.\<close>

definition oversized :: jsvalue where
  "oversized = JString (replicate (size_limit + 1) 97)"

text \<open>A store that is up, and one whose every operation fails.\<close>

definition store_up :: "(jsstring \<times> jsstring \<times> nat) list \<Rightarrow> KVNamespace" where
  "store_up es = \<lparr>entries = es, clock = 0, failure = (\<lambda>op. None)\<rparr>"

definition store_down :: "(jsstring \<times> jsstring \<times> nat) list \<Rightarrow> KVNamespace" where
  "store_down es = \<lparr>entries = es, clock = 0, failure = (\<lambda>op. Some (ErrorInstance (str ''KV unavailable'')))\<rparr>"

text \<open>A loader that counts its invocations in the world and returns \<open>data\<close>.\<close>

definition counting_loader :: "jsvalue \<Rightarrow> nat \<Rightarrow> (thrown + jsvalue) \<times> nat" where
  "counting_loader data n = (Inr data, Suc n)"

text \<open>Create payloads, as the handler hands them to the schema.\<close>

definition example_title :: jsstring where
  "example_title = str ''Valid local petition title''"

definition example_description :: jsstring where
  "example_description = str ''This is a valid description that meets the minimum character requirement of 100 characters for testing.''"

definition local_without_location :: jsvalue where
  "local_without_location =
     JObject [(str ''title'', JString example_title),
              (str ''description'', JString example_description),
              (str ''type'', JString (str ''local'')),
              (str ''created_by'', JString (str ''user123''))]"

definition local_with_location :: jsvalue where
  "local_with_location =
     JObject [(str ''title'', JString example_title),
              (str ''description'', JString example_description),
              (str ''type'', JString (str ''local'')),
              (str ''location'', JString (str ''Manila'')),
              (str ''created_by'', JString (str ''user123''))]"

definition local_type_only :: jsvalue where
  "local_type_only =
     JObject [(str ''type'', JString (str ''local'')),
              (str ''created_by'', JString (str ''user123''))]"

text \<open>
  An in-memory data-access layer for the examples: the world is the table of
  petitions by id.  The session provider answers with the given session.
\<close>

definition merge_props :: "jsvalue \<Rightarrow> jsvalue \<Rightarrow> jsvalue" where
  "merge_props p data =
     (case data of JObject ps \<Rightarrow> foldl (\<lambda>acc (k, v). assign_prop acc k v) p ps | _ \<Rightarrow> p)"

definition memory_services :: "jsvalue \<Rightarrow> ((jsvalue \<times> jsvalue) list) Services" where
  "memory_services session =
     \<lparr>createPetition = (\<lambda>data w.
        (let newId = JNumber (of_nat (Suc (length w)));
             p = assign_prop data (str ''id'') newId
         in (Inr p, w @ [(newId, p)]))),
      updatePetition = (\<lambda>pid data w.
        (case map_of w pid of
           None \<Rightarrow> (Inl (ErrorInstance (str ''Petition not found'')), w)
         | Some p \<Rightarrow> (Inr (merge_props p data), AList.update pid (merge_props p data) w))),
      deletePetition = (\<lambda>pid w. (Inr JUndefined, AList.delete pid w)),
      getPetitionById = (\<lambda>pid w. (Inr (case map_of w pid of None \<Rightarrow> JNull | Some p \<Rightarrow> p), w)),
      getUserPetitions = (\<lambda>uid w.
        (Inr (JArray (map snd (filter (\<lambda>r. prop_of (snd r) (str ''created_by'') = JString uid) w))), w)),
      getAllPetitions = (\<lambda>limit offset t cats w. (Inr (JArray (map snd w)), w)),
      IMAGES_put = (\<lambda>path f w. (Inr (), w)),
      Auth = (\<lambda>request w. (Inr \<lparr>auth_ok = True, auth_json = Inr session\<rparr>, w))\<rparr>"

definition example_runtime :: Runtime where
  "example_runtime =
     \<lparr>rt_stringify = stringify_text,
      rt_parse = parse_text,
      rt_localeCompare = codeUnitCompare,
      rt_ToString = (\<lambda>v. case v of JString s \<Rightarrow> s | _ \<Rightarrow> str ''undefined''),
      rt_date = str ''Tue, 03 Nov 2026 00:00:00 GMT''\<rparr>"

definition example_context :: "jsstring \<Rightarrow> jsstring \<Rightarrow> jsvalue \<Rightarrow> AuthenticatedUser option \<Rightarrow> Context" where
  "example_context m pid payload user =
     \<lparr>ctx_request = \<lparr>http_method = m, pathname = str ''/api/petitions'', searchParams = [],
                      Origin = None, If_None_Match = None,
                      Content_Type = None\<rparr>,
      ctx_env = \<lparr>ENVIRONMENT = Some (str ''production''), NODE_ENV = None\<rparr>,
      params_id = pid,
      data_user = user,
      request_formData = Inl (ErrorInstance (str ''Not form data'')),
      request_json = Inr payload\<rparr>"

definition example_user :: AuthenticatedUser where
  "example_user =
     \<lparr>user_id = JString (str ''user123''), user_email = JString (str ''user@example.org''),
      user_name = JString (str ''User''), user_image = JUndefined\<rparr>"

definition example_petition :: jsvalue where
  "example_petition =
     JObject [(str ''id'', JNumber 1), (str ''created_by'', JString (str ''user123''))]"

definition example_store :: KVNamespace where
  "example_store =
     store_up [(str ''petitions:/api/petitions'', str ''\"list\"'', 300),
               (str ''petition:/api/petitions/1'', str ''\"one\"'', 600)]"

text \<open>The session the provider answers with for a signed-in user.\<close>

definition session_of :: "jsstring \<Rightarrow> jsvalue" where
  "session_of uid = JObject [(str ''user'', JObject [(str ''id'', JString uid)])]"

definition update_title :: jsvalue where
  "update_title = JObject [(str ''title'', JString (str ''Updated petition title here''))]"

section \<open>Properties of the cache-key construction\<close>

lemma str_simps: "str [] = []" "str (c # cs) = of_char c # str cs"
  by (simp_all add: str_def)

lemma mset_insert_sorted: "mset (insert_sorted c x ys) = add_mset x (mset ys)"
  by (induction ys) auto

lemma mset_Array_sort: "mset (Array_sort c xs) = mset xs"
  by (induction xs) (auto simp: Array_sort_def mset_insert_sorted)

lemma set_insert_sorted: "set (insert_sorted c x ys) = insert x (set ys)"
  by (induction ys) auto

lemma sorted_insert_sorted:
  assumes total: "\<And>a b. c a b \<le> 0 \<or> c b a \<le> 0"
    and trans: "\<And>a b d. c a b \<le> 0 \<Longrightarrow> c b d \<le> 0 \<Longrightarrow> c a d \<le> 0"
  shows "sorted_wrt (\<lambda>a b. c a b \<le> 0) ys \<Longrightarrow> sorted_wrt (\<lambda>a b. c a b \<le> 0) (insert_sorted c x ys)"
proof (induction ys)
  case Nil
  then show ?case by simp
next
  case (Cons y ys)
  show ?case
  proof (cases "c x y \<le> 0")
    case True
    with Cons.prems show ?thesis using trans by auto
  next
    case False
    then have "c y x \<le> 0" using total by blast
    with False Cons show ?thesis by (auto simp: set_insert_sorted)
  qed
qed

lemma sorted_Array_sort:
  assumes total: "\<And>a b. c a b \<le> 0 \<or> c b a \<le> 0"
    and trans: "\<And>a b d. c a b \<le> 0 \<Longrightarrow> c b d \<le> 0 \<Longrightarrow> c a d \<le> 0"
  shows "sorted_wrt (\<lambda>a b. c a b \<le> 0) (Array_sort c xs)"
proof (induction xs)
  case Nil
  then show ?case by (simp add: Array_sort_def)
next
  case (Cons x xs)
  have "Array_sort c (x # xs) = insert_sorted c x (Array_sort c xs)"
    by (simp add: Array_sort_def)
  with Cons show ?case using sorted_insert_sorted [of c, OF total trans] by simp
qed

lemma sorted_wrt_unique:
  assumes anti: "\<And>a b. a \<in> set xs \<Longrightarrow> b \<in> set xs \<Longrightarrow> c a b \<le> 0 \<Longrightarrow> c b a \<le> 0 \<Longrightarrow> a = b"
  shows "sorted_wrt (\<lambda>a b. c a b \<le> 0) xs \<Longrightarrow> sorted_wrt (\<lambda>a b. c a b \<le> 0) ys \<Longrightarrow>
         mset xs = mset ys \<Longrightarrow> xs = ys"
  using anti
proof (induction xs arbitrary: ys)
  case Nil
  then show ?case by simp
next
  case (Cons x xs)
  from Cons.prems(3) obtain y ys' where ys: "ys = y # ys'"
    by (cases ys) auto
  have sets: "set (x # xs) = set ys"
    using Cons.prems(3) by (rule mset_eq_setD)
  have "x = y"
  proof (rule ccontr)
    assume neq: "x \<noteq> y"
    then have "y \<in> set xs" using sets ys by auto
    then have xy: "c x y \<le> 0" using Cons.prems(1) by simp
    from neq have "x \<in> set ys'" using sets ys by auto
    then have yx: "c y x \<le> 0" using Cons.prems(2) ys by simp
    have "y \<in> set (x # xs)" using sets ys by simp
    then have "x = y" using Cons.prems(4) [of x y] xy yx by simp
    with neq show False by simp
  qed
  moreover have "xs = ys'"
  proof (rule Cons.IH)
    show "sorted_wrt (\<lambda>a b. c a b \<le> 0) xs" using Cons.prems(1) by simp
    show "sorted_wrt (\<lambda>a b. c a b \<le> 0) ys'" using Cons.prems(2) ys by simp
    show "mset xs = mset ys'" using Cons.prems(3) ys \<open>x = y\<close> by simp
    show "\<And>a b. a \<in> set xs \<Longrightarrow> b \<in> set xs \<Longrightarrow> c a b \<le> 0 \<Longrightarrow> c b a \<le> 0 \<Longrightarrow> a = b"
      using Cons.prems(4) by simp
  qed
  ultimately show ?case using ys by simp
qed

lemma consistent_comparatorD1: "consistent_comparator c \<Longrightarrow> c a b \<le> 0 \<or> c b a \<le> 0"
  unfolding consistent_comparator_def by blast

lemma consistent_comparatorD2:
  "consistent_comparator c \<Longrightarrow> c a b \<le> 0 \<Longrightarrow> c b d \<le> 0 \<Longrightarrow> c a d \<le> 0"
  unfolding consistent_comparator_def by blast

lemma comparator_pairs_total:
  assumes "consistent_comparator lc"
  shows "(case p of (a, _) \<Rightarrow> \<lambda>(b, _). lc a b) q \<le> 0 \<or> (case q of (a, _) \<Rightarrow> \<lambda>(b, _). lc a b) p \<le> 0"
  using consistent_comparatorD1 [OF assms, of "fst p" "fst q"]
  by (cases p, cases q) simp

lemma comparator_pairs_trans:
  assumes "consistent_comparator lc"
  shows "(case p of (a, _) \<Rightarrow> \<lambda>(b, _). lc a b) q \<le> 0 \<Longrightarrow>
         (case q of (a, _) \<Rightarrow> \<lambda>(b, _). lc a b) r \<le> 0 \<Longrightarrow>
         (case p of (a, _) \<Rightarrow> \<lambda>(b, _). lc a b) r \<le> 0"
  using consistent_comparatorD2 [OF assms, of "fst p" "fst q" "fst r"]
  by (cases p, cases q, cases r) simp

text \<open>The comparison function on parameters, as the source writes it.\<close>

lemma Array_sort_params_unique:
  assumes cons: "consistent_comparator lc"
    and dist: "distinct_names lc ps"
    and perm: "mset ps = mset qs"
  shows "Array_sort (\<lambda>(a, _) (b, _). lc a b) ps = Array_sort (\<lambda>(a, _) (b, _). lc a b) qs"
proof -
  let ?c = "\<lambda>(a, _) (b, _). lc a b"
  have total: "\<And>p q. ?c p q \<le> 0 \<or> ?c q p \<le> 0"
    using comparator_pairs_total [OF cons] .
  have trans: "\<And>p q r. ?c p q \<le> 0 \<Longrightarrow> ?c q r \<le> 0 \<Longrightarrow> ?c p r \<le> 0"
    using comparator_pairs_trans [OF cons] .
  have s1: "sorted_wrt (\<lambda>a b. ?c a b \<le> 0) (Array_sort ?c ps)"
    by (rule sorted_Array_sort [of ?c, OF total trans])
  have s2: "sorted_wrt (\<lambda>a b. ?c a b \<le> 0) (Array_sort ?c qs)"
    by (rule sorted_Array_sort [of ?c, OF total trans])
  have m: "mset (Array_sort ?c ps) = mset (Array_sort ?c qs)"
    using perm by (simp add: mset_Array_sort)
  have setps: "set (Array_sort ?c ps) = set ps"
    by (rule mset_eq_setD) (rule mset_Array_sort)
  have anti: "\<And>p q. p \<in> set (Array_sort ?c ps) \<Longrightarrow> q \<in> set (Array_sort ?c ps) \<Longrightarrow>
      ?c p q \<le> 0 \<Longrightarrow> ?c q p \<le> 0 \<Longrightarrow> p = q"
  proof -
    fix p q
    assume p: "p \<in> set (Array_sort ?c ps)" and q: "q \<in> set (Array_sort ?c ps)"
      and pq: "?c p q \<le> 0" and qp: "?c q p \<le> 0"
    from p q have pin: "p \<in> set ps" and qin: "q \<in> set ps" using setps by auto
    then have "fst p \<in> set (map fst ps)" "fst q \<in> set (map fst ps)" by auto
    moreover have "lc (fst p) (fst q) \<le> 0" "lc (fst q) (fst p) \<le> 0"
      using pq qp by (auto split: prod.splits)
    ultimately have "fst p = fst q"
      using dist unfolding distinct_names_def by blast
    moreover have "inj_on fst (set ps)"
      using dist by (simp add: distinct_names_def distinct_map)
    ultimately show "p = q" using pin qin by (auto dest: inj_onD)
  qed
  show ?thesis
    by (rule sorted_wrt_unique [of "Array_sort ?c ps" ?c, OF anti s1 s2 m])
qed

lemma Array_join_nonempty: "x \<noteq> [] \<Longrightarrow> Array_join sep (x # xs) \<noteq> []"
  by (cases xs) auto

lemma sortedParams_empty_iff: "sortedParams lc request = [] \<longleftrightarrow> searchParams request = []"
proof -
  let ?c = "\<lambda>(a, _) (b, _). lc a b"
  let ?s = "Array_sort ?c (searchParams request)"
  have "length ?s = length (searchParams request)"
    by (rule mset_eq_length) (rule mset_Array_sort)
  then have eq: "?s = [] \<longleftrightarrow> searchParams request = []"
    by (metis length_0_conv)
  show ?thesis
  proof (cases ?s)
    case Nil
    then show ?thesis using eq by (simp add: sortedParams_def)
  next
    case (Cons p ps)
    obtain k v where p: "p = (k, v)" by (cases p)
    have "k @ str ''='' @ v \<noteq> []" by (simp add: str_simps)
    then have "Array_join (str ''&'') ((k @ str ''='' @ v) # map (\<lambda>(key, v). key @ str ''='' @ v) ps) \<noteq> []"
      by (rule Array_join_nonempty)
    then show ?thesis using eq Cons p by (simp add: sortedParams_def)
  qed
qed

text \<open>
  C4 (amended): for a consistent \<open>localeCompare\<close>, two requests with the same path
  whose query parameters are the same multiset, no two of them sharing a name (or
  names that compare equal), get the same key; the key is the prefix, a colon, the
  path and, when there are parameters, a question mark and the \<open>name=value\<close> pairs
  joined by \<open>&\<close> in the order of the stable sort by name.
\<close>

theorem generateCacheKey_order_independent:
  assumes "consistent_comparator localeCompare"
    and "pathname r1 = pathname r2"
    and "mset (searchParams r1) = mset (searchParams r2)"
    and "distinct_names localeCompare (searchParams r1)"
  shows "generateCacheKey localeCompare r1 prefix = generateCacheKey localeCompare r2 prefix \<and>
         generateCacheKey localeCompare r1 prefix =
           prefix @ str '':'' @ pathname r1 @
             (if searchParams r1 = [] then []
              else str ''?'' @ Array_join (str ''&'')
                (map (\<lambda>(key, v). key @ str ''='' @ v)
                   (Array_sort (\<lambda>(a, _) (b, _). localeCompare a b) (searchParams r1)))) \<and>
         sorted_wrt (\<lambda>p q. localeCompare (fst p) (fst q) \<le> 0)
           (Array_sort (\<lambda>(a, _) (b, _). localeCompare a b) (searchParams r1)) \<and>
         mset (Array_sort (\<lambda>(a, _) (b, _). localeCompare a b) (searchParams r1)) = mset (searchParams r1)"
proof -
  let ?c = "\<lambda>(a, _) (b, _). localeCompare a b"
  have same: "sortedParams localeCompare r1 = sortedParams localeCompare r2"
    using Array_sort_params_unique [OF assms(1) assms(4) assms(3)]
    by (simp add: sortedParams_def)
  have k: "generateCacheKey localeCompare r1 prefix = generateCacheKey localeCompare r2 prefix"
    using same assms(2) by (simp add: generateCacheKey_def)
  have shape: "generateCacheKey localeCompare r1 prefix =
           prefix @ str '':'' @ pathname r1 @
             (if searchParams r1 = [] then []
              else str ''?'' @ Array_join (str ''&'')
                (map (\<lambda>(key, v). key @ str ''='' @ v) (Array_sort ?c (searchParams r1))))"
  proof (cases "searchParams r1 = []")
    case True
    then have "sortedParams localeCompare r1 = []"
      using sortedParams_empty_iff [of localeCompare r1] by simp
    with True show ?thesis by (simp add: generateCacheKey_def)
  next
    case False
    then have "sortedParams localeCompare r1 \<noteq> []"
      using sortedParams_empty_iff [of localeCompare r1] by simp
    with False show ?thesis by (simp add: generateCacheKey_def) (simp add: sortedParams_def)
  qed
  have total: "\<And>p q. ?c p q \<le> 0 \<or> ?c q p \<le> 0"
    using comparator_pairs_total [OF assms(1)] .
  have trans: "\<And>p q r. ?c p q \<le> 0 \<Longrightarrow> ?c q r \<le> 0 \<Longrightarrow> ?c p r \<le> 0"
    using comparator_pairs_trans [OF assms(1)] .
  have "sorted_wrt (\<lambda>a b. ?c a b \<le> 0) (Array_sort ?c (searchParams r1))"
    by (rule sorted_Array_sort [of ?c, OF total trans])
  then have srt: "sorted_wrt (\<lambda>p q. localeCompare (fst p) (fst q) \<le> 0) (Array_sort ?c (searchParams r1))"
    by (simp add: case_prod_unfold)
  show ?thesis using k shape srt mset_Array_sort [of ?c "searchParams r1"] by simp
qed

lemma codeUnitCompare_le: "codeUnitCompare a b \<le> 0 \<longleftrightarrow> a \<le> b"
  by (simp add: codeUnitCompare_def less_le)

lemma consistent_codeUnitCompare: "consistent_comparator codeUnitCompare"
  unfolding consistent_comparator_def codeUnitCompare_le
  by (meson linear order_trans)

theorem generateCacheKey_order_independent_witness:
  "consistent_comparator codeUnitCompare \<and>
   distinct_names codeUnitCompare [(str ''type'', str ''local''), (str ''limit'', str ''10'')] \<and>
   mset [(str ''type'', str ''local''), (str ''limit'', str ''10'')] =
     mset [(str ''limit'', str ''10''), (str ''type'', str ''local'')] \<and>
   generateCacheKey codeUnitCompare
     \<lparr>http_method = str ''GET'', pathname = str ''/api/petitions'',
      searchParams = [(str ''type'', str ''local''), (str ''limit'', str ''10'')],
      Origin = None, If_None_Match = None, Content_Type = None\<rparr> (str ''petitions'') =
   generateCacheKey codeUnitCompare
     \<lparr>http_method = str ''GET'', pathname = str ''/api/petitions'',
      searchParams = [(str ''limit'', str ''10''), (str ''type'', str ''local'')],
      Origin = None, If_None_Match = None, Content_Type = None\<rparr> (str ''petitions'') \<and>
   generateCacheKey codeUnitCompare
     \<lparr>http_method = str ''GET'', pathname = str ''/api/petitions'',
      searchParams = [(str ''type'', str ''local''), (str ''limit'', str ''10'')],
      Origin = None, If_None_Match = None, Content_Type = None\<rparr> (str ''petitions'') =
     str ''petitions:/api/petitions?limit=10&type=local''"
proof -
  let ?r1 = "\<lparr>http_method = str ''GET'', pathname = str ''/api/petitions'',
      searchParams = [(str ''type'', str ''local''), (str ''limit'', str ''10'')],
      Origin = None, If_None_Match = None, Content_Type = None\<rparr>"
  let ?r2 = "\<lparr>http_method = str ''GET'', pathname = str ''/api/petitions'',
      searchParams = [(str ''limit'', str ''10''), (str ''type'', str ''local'')],
      Origin = None, If_None_Match = None, Content_Type = None\<rparr>"
  have c: "consistent_comparator codeUnitCompare"
    by (rule consistent_codeUnitCompare)
  have p: "pathname ?r1 = pathname ?r2" by simp
  have m: "mset (searchParams ?r1) = mset (searchParams ?r2)" by simp
  have d: "distinct_names codeUnitCompare (searchParams ?r1)"
    by (simp add: distinct_names_def codeUnitCompare_def str_simps)
  have k: "generateCacheKey codeUnitCompare ?r1 (str ''petitions'') =
      str ''petitions:/api/petitions?limit=10&type=local''"
    by (simp add: generateCacheKey_def sortedParams_def Array_sort_def codeUnitCompare_def str_simps)
  from generateCacheKey_order_independent [OF c p m d, of "str ''petitions''"]
  have "generateCacheKey codeUnitCompare ?r1 (str ''petitions'') =
      generateCacheKey codeUnitCompare ?r2 (str ''petitions'')"
    by simp
  with c d k show ?thesis by simp
qed

text \<open>
  The claim C4 as stated fails when a parameter name is repeated: the comparison
  function sees names only and the sort is stable, so two values of one name stay in
  request order and the two orders give two keys.
\<close>

theorem generateCacheKey_repeated_name_counterexample:
  "mset [(str ''category[]'', str ''1''), (str ''category[]'', str ''2'')] =
     mset [(str ''category[]'', str ''2''), (str ''category[]'', str ''1'')] \<and>
   generateCacheKey codeUnitCompare
     \<lparr>http_method = str ''GET'', pathname = str ''/api/petitions'',
      searchParams = [(str ''category[]'', str ''1''), (str ''category[]'', str ''2'')],
      Origin = None, If_None_Match = None, Content_Type = None\<rparr> (str ''petitions'') =
     str ''petitions:/api/petitions?category[]=1&category[]=2'' \<and>
   generateCacheKey codeUnitCompare
     \<lparr>http_method = str ''GET'', pathname = str ''/api/petitions'',
      searchParams = [(str ''category[]'', str ''2''), (str ''category[]'', str ''1'')],
      Origin = None, If_None_Match = None, Content_Type = None\<rparr> (str ''petitions'') =
     str ''petitions:/api/petitions?category[]=2&category[]=1'' \<and>
   generateCacheKey codeUnitCompare
     \<lparr>http_method = str ''GET'', pathname = str ''/api/petitions'',
      searchParams = [(str ''category[]'', str ''1''), (str ''category[]'', str ''2'')],
      Origin = None, If_None_Match = None, Content_Type = None\<rparr> (str ''petitions'') \<noteq>
   generateCacheKey codeUnitCompare
     \<lparr>http_method = str ''GET'', pathname = str ''/api/petitions'',
      searchParams = [(str ''category[]'', str ''2''), (str ''category[]'', str ''1'')],
      Origin = None, If_None_Match = None, Content_Type = None\<rparr> (str ''petitions'')"
  by (simp add: generateCacheKey_def sortedParams_def Array_sort_def codeUnitCompare_def str_simps)

section \<open>Properties of the response helpers\<close>

text \<open>
  C9: \<open>getCorsHeaders\<close> always sets \<open>Access-Control-Allow-Credentials\<close> to
  \<open>true\<close>; it sets \<open>Access-Control-Allow-Origin\<close> to the request's origin when
  that origin is in the allow-list and to \<open>*\<close> when the origin is absent or not in
  the list; outside production the allow-list is the production origins followed by
  the development origins, in production it is the production origins alone.
\<close>

theorem getCorsHeaders_origin:
  "map_of (getCorsHeaders request env) (str ''Access-Control-Allow-Credentials'') = Some (str ''true'') \<and>
   map_of (getCorsHeaders request env) (str ''Access-Control-Allow-Origin'') =
     Some (case Origin request of
             None \<Rightarrow> str ''*''
           | Some origin \<Rightarrow> if origin \<in> set (allowedOrigins env) then origin else str ''*'') \<and>
   (\<not> isProduction env \<longrightarrow> allowedOrigins env = productionOrigins @ developmentOrigins) \<and>
   (isProduction env \<longrightarrow> allowedOrigins env = productionOrigins)"
proof -
  have ne: "[] \<notin> set (allowedOrigins env)"
    by (simp add: allowedOrigins_def productionOrigins_def developmentOrigins_def str_simps)
  have cred: "map_of (getCorsHeaders request env) (str ''Access-Control-Allow-Credentials'') = Some (str ''true'')"
    by (simp add: getCorsHeaders_def str_simps)
  have orig: "map_of (getCorsHeaders request env) (str ''Access-Control-Allow-Origin'') =
     Some (case Origin request of
             None \<Rightarrow> str ''*''
           | Some origin \<Rightarrow> if origin \<in> set (allowedOrigins env) then origin else str ''*'')"
    using ne by (auto simp add: getCorsHeaders_def allowedOrigin_def Let_def split: option.splits)
  show ?thesis using cred orig by (simp add: allowedOrigins_def)
qed

theorem getCorsHeaders_origin_witness:
  "map_of (getCorsHeaders
      \<lparr>http_method = str ''GET'', pathname = str ''/api/petitions'', searchParams = [],
       Origin = Some (str ''http://localhost:5173''), If_None_Match = None, Content_Type = None\<rparr>
      \<lparr>ENVIRONMENT = Some (str ''development''), NODE_ENV = None\<rparr>)
     (str ''Access-Control-Allow-Origin'') = Some (str ''http://localhost:5173'') \<and>
   map_of (getCorsHeaders
      \<lparr>http_method = str ''GET'', pathname = str ''/api/petitions'', searchParams = [],
       Origin = Some (str ''https://evil.example''), If_None_Match = None, Content_Type = None\<rparr>
      \<lparr>ENVIRONMENT = Some (str ''production''), NODE_ENV = None\<rparr>)
     (str ''Access-Control-Allow-Origin'') = Some (str ''*'') \<and>
   map_of (getCorsHeaders
      \<lparr>http_method = str ''GET'', pathname = str ''/api/petitions'', searchParams = [],
       Origin = Some (str ''https://evil.example''), If_None_Match = None, Content_Type = None\<rparr>
      \<lparr>ENVIRONMENT = Some (str ''production''), NODE_ENV = None\<rparr>)
     (str ''Access-Control-Allow-Credentials'') = Some (str ''true'') \<and>
   \<not> isProduction \<lparr>ENVIRONMENT = Some (str ''development''), NODE_ENV = None\<rparr> \<and>
   allowedOrigins \<lparr>ENVIRONMENT = Some (str ''development''), NODE_ENV = None\<rparr> = productionOrigins @ developmentOrigins"
  using getCorsHeaders_origin [of
      "\<lparr>http_method = str ''GET'', pathname = str ''/api/petitions'', searchParams = [],
       Origin = Some (str ''http://localhost:5173''), If_None_Match = None, Content_Type = None\<rparr>"
      "\<lparr>ENVIRONMENT = Some (str ''development''), NODE_ENV = None\<rparr>"]
    getCorsHeaders_origin [of
      "\<lparr>http_method = str ''GET'', pathname = str ''/api/petitions'', searchParams = [],
       Origin = Some (str ''https://evil.example''), If_None_Match = None, Content_Type = None\<rparr>"
      "\<lparr>ENVIRONMENT = Some (str ''production''), NODE_ENV = None\<rparr>"]
  by (simp add: isProduction_def allowedOrigins_def productionOrigins_def developmentOrigins_def str_simps)

text \<open>
  C8: the ETag depends on the serialised payload only, so equal payloads have equal
  tags; when the request's \<open>If-None-Match\<close> equals the payload's tag
  \<open>createCachedResponse\<close> answers 304 with no body, otherwise 200 with the
  payload as body; both responses carry the \<open>ETag\<close> and \<open>Cache-Control\<close>
  headers.
\<close>

theorem createCachedResponse_conditional:
  "(stringify d1 = stringify d2 \<longrightarrow> generateETag stringify d1 = generateETag stringify d2) \<and>
   (If_None_Match request = Some (generateETag stringify data) \<longrightarrow>
      status (createCachedResponse stringify date data request env cacheMaxAge) = 304 \<and>
      body (createCachedResponse stringify date data request env cacheMaxAge) = None) \<and>
   (If_None_Match request \<noteq> Some (generateETag stringify data) \<longrightarrow>
      status (createCachedResponse stringify date data request env cacheMaxAge) = 200 \<and>
      body (createCachedResponse stringify date data request env cacheMaxAge) = Some data) \<and>
   map_of (headers (createCachedResponse stringify date data request env cacheMaxAge)) (str ''ETag'') =
     Some (generateETag stringify data) \<and>
   map_of (headers (createCachedResponse stringify date data request env cacheMaxAge)) (str ''Cache-Control'') =
     Some (str ''public, max-age='' @ Number_toString 10 cacheMaxAge)"
proof -
  have e: "generateETag stringify d1 = generateETag stringify d2" if "stringify d1 = stringify d2"
    using that by (simp add: generateETag_def)
  have h1: "map_of (headers (createCachedResponse stringify date data request env cacheMaxAge)) (str ''ETag'') =
     Some (generateETag stringify data)"
    by (simp add: createCachedResponse_def Let_def spread_def update_conv' str_simps)
  have h2: "map_of (headers (createCachedResponse stringify date data request env cacheMaxAge)) (str ''Cache-Control'') =
     Some (str ''public, max-age='' @ Number_toString 10 cacheMaxAge)"
    by (simp add: createCachedResponse_def Let_def spread_def update_conv' str_simps)
  show ?thesis using e h1 h2 by (simp add: createCachedResponse_def Let_def)
qed

theorem createCachedResponse_conditional_witness:
  "generateETag (\<lambda>v. str ''{\"a\":1}'') (JObject [(str ''a'', JNumber 1)]) = str ''\"numd4y\"'' \<and>
   status (createCachedResponse (\<lambda>v. str ''{\"a\":1}'') (str ''Tue, 03 Nov 2026 00:00:00 GMT'')
     (JObject [(str ''a'', JNumber 1)])
     \<lparr>http_method = str ''GET'', pathname = str ''/api/petitions/1'', searchParams = [],
      Origin = None, If_None_Match = Some (str ''\"numd4y\"''), Content_Type = None\<rparr>
     \<lparr>ENVIRONMENT = None, NODE_ENV = None\<rparr> 600) = 304 \<and>
   body (createCachedResponse (\<lambda>v. str ''{\"a\":1}'') (str ''Tue, 03 Nov 2026 00:00:00 GMT'')
     (JObject [(str ''a'', JNumber 1)])
     \<lparr>http_method = str ''GET'', pathname = str ''/api/petitions/1'', searchParams = [],
      Origin = None, If_None_Match = Some (str ''\"numd4y\"''), Content_Type = None\<rparr>
     \<lparr>ENVIRONMENT = None, NODE_ENV = None\<rparr> 600) = None \<and>
   status (createCachedResponse (\<lambda>v. str ''{\"a\":1}'') (str ''Tue, 03 Nov 2026 00:00:00 GMT'')
     (JObject [(str ''a'', JNumber 1)])
     \<lparr>http_method = str ''GET'', pathname = str ''/api/petitions/1'', searchParams = [],
      Origin = None, If_None_Match = None, Content_Type = None\<rparr>
     \<lparr>ENVIRONMENT = None, NODE_ENV = None\<rparr> 600) = 200 \<and>
   body (createCachedResponse (\<lambda>v. str ''{\"a\":1}'') (str ''Tue, 03 Nov 2026 00:00:00 GMT'')
     (JObject [(str ''a'', JNumber 1)])
     \<lparr>http_method = str ''GET'', pathname = str ''/api/petitions/1'', searchParams = [],
      Origin = None, If_None_Match = None, Content_Type = None\<rparr>
     \<lparr>ENVIRONMENT = None, NODE_ENV = None\<rparr> 600) = Some (JObject [(str ''a'', JNumber 1)])"
proof -
  let ?S = "\<lambda>v::jsvalue. str ''{\"a\":1}''"
  let ?d = "JObject [(str ''a'', JNumber 1)]"
  let ?env = "\<lparr>ENVIRONMENT = None, NODE_ENV = None\<rparr>"
  let ?date = "str ''Tue, 03 Nov 2026 00:00:00 GMT''"
  let ?hit = "\<lparr>http_method = str ''GET'', pathname = str ''/api/petitions/1'', searchParams = [],
      Origin = None, If_None_Match = Some (str ''\"numd4y\"''), Content_Type = None\<rparr>"
  let ?miss = "\<lparr>http_method = str ''GET'', pathname = str ''/api/petitions/1'', searchParams = [],
      Origin = None, If_None_Match = None, Content_Type = None\<rparr>"
  have tag: "generateETag ?S ?d = str ''\"numd4y\"''"
    by (simp add: generateETag_def hash_step_def str_simps Number_toString.simps digit_char_def)
  have a: "If_None_Match ?hit = Some (generateETag ?S ?d)" using tag by simp
  have b: "If_None_Match ?miss \<noteq> Some (generateETag ?S ?d)" by simp
  from createCachedResponse_conditional [where stringify = ?S and data = ?d and request = ?hit and date = ?date and env = ?env and cacheMaxAge = 600] a
  have hit: "status (createCachedResponse ?S ?date ?d ?hit ?env 600) = 304 \<and>
             body (createCachedResponse ?S ?date ?d ?hit ?env 600) = None"
    by blast
  from createCachedResponse_conditional [where stringify = ?S and data = ?d and request = ?miss and date = ?date and env = ?env and cacheMaxAge = 600] b
  have miss: "status (createCachedResponse ?S ?date ?d ?miss ?env 600) = 200 \<and>
             body (createCachedResponse ?S ?date ?d ?miss ?env 600) = Some ?d"
    by blast
  show ?thesis using tag hit miss by simp
qed

section \<open>Properties of the cache\<close>

lemma utf8_size_ascii: "\<forall>c \<in> set s. c < 128 \<Longrightarrow> utf8_size s = length s"
  by (induction s rule: utf8_size.induct) auto

lemma utf8_size_oversized: "utf8_size (stringify_text oversized) = size_limit + 3"
proof -
  have "\<forall>c \<in> set (stringify_text oversized). c < 128"
    by (auto simp: stringify_text_def oversized_def)
  then have "utf8_size (stringify_text oversized) = length (stringify_text oversized)"
    by (rule utf8_size_ascii)
  then show ?thesis by (simp add: stringify_text_def oversized_def)
qed

lemma getCachedData_total: "\<exists>v. getCachedData parse cacheKey kv = Inr v"
  by (simp add: getCachedData_def split: sum.splits)

lemma setCachedData_returns: "fst (setCachedData stringify cacheKey data kv ttl) = Inr ()"
  by (simp add: setCachedData_def split: prod.splits sum.splits)

lemma invalidateCachePattern_returns: "fst (invalidateCachePattern pattern kv) = Inr ()"
  by (simp add: invalidateCachePattern_def split: prod.splits sum.splits)

text \<open>
  C6: a failure of the store never reaches the caller.  \<open>getCachedData\<close> always
  returns, and returns \<open>null\<close> whenever its \<open>try\<close> block throws, in particular
  when the store's \<open>get\<close> fails; \<open>setCachedData\<close> and
  \<open>invalidateCachePattern\<close> always return normally, and leave the store as it was
  when \<open>put\<close>, respectively \<open>list\<close>, fails.
\<close>

theorem cache_failures_are_absorbed:
  "(\<exists>v. getCachedData parse cacheKey kv = Inr v) \<and>
   (\<forall>e. getCachedData_try parse cacheKey kv = Inl e \<longrightarrow> getCachedData parse cacheKey kv = Inr JNull) \<and>
   (\<forall>store e. kv = Some store \<and> failure store (KVGet cacheKey) = Some e \<longrightarrow>
      getCachedData parse cacheKey kv = Inr JNull) \<and>
   fst (setCachedData stringify cacheKey data kv ttl) = Inr () \<and>
   (\<forall>store e. kv = Some store \<and> failure store (KVPut cacheKey) = Some e \<longrightarrow>
      setCachedData stringify cacheKey data kv ttl = (Inr (), kv)) \<and>
   fst (invalidateCachePattern pattern kv) = Inr () \<and>
   (\<forall>store e. kv = Some store \<and> failure store (KVList pattern) = Some e \<longrightarrow>
      invalidateCachePattern pattern kv = (Inr (), kv))"
proof -
  have g2: "\<forall>e. getCachedData_try parse cacheKey kv = Inl e \<longrightarrow> getCachedData parse cacheKey kv = Inr JNull"
    by (simp add: getCachedData_def)
  have g3: "\<forall>store e. kv = Some store \<and> failure store (KVGet cacheKey) = Some e \<longrightarrow>
      getCachedData parse cacheKey kv = Inr JNull"
    by (auto simp: getCachedData_def getCachedData_try_def kv_get_json_def kv_get_def)
  have s2: "\<forall>store e. kv = Some store \<and> failure store (KVPut cacheKey) = Some e \<longrightarrow>
      setCachedData stringify cacheKey data kv ttl = (Inr (), kv)"
    by (auto simp: setCachedData_def setCachedData_try_def kv_put_def Let_def)
  have i2: "\<forall>store e. kv = Some store \<and> failure store (KVList pattern) = Some e \<longrightarrow>
      invalidateCachePattern pattern kv = (Inr (), kv)"
    by (auto simp: invalidateCachePattern_def invalidateCachePattern_try_def kv_list_def)
  show ?thesis
    using getCachedData_total [of parse cacheKey kv] g2 g3
      setCachedData_returns [of stringify cacheKey data kv ttl] s2
      invalidateCachePattern_returns [of pattern kv] i2
    by blast
qed

theorem cache_failures_are_absorbed_witness:
  "failure (store_down []) (KVGet (str ''petition:/api/petitions/1'')) = Some (ErrorInstance (str ''KV unavailable'')) \<and>
   getCachedData parse_text (str ''petition:/api/petitions/1'') (Some (store_down [])) = Inr JNull \<and>
   setCachedData stringify_text (str ''petition:/api/petitions/1'') (JString (str ''x'')) (Some (store_down [])) 600
     = (Inr (), Some (store_down [])) \<and>
   invalidateCachePattern (str ''petition:'') (Some (store_down [])) = (Inr (), Some (store_down []))"
  using cache_failures_are_absorbed [where kv = "Some (store_down [])" and parse = parse_text
      and cacheKey = "str ''petition:/api/petitions/1''" and stringify = stringify_text
      and data = "JString (str ''x'')" and ttl = 600 and pattern = "str ''petition:''"]
  by (simp add: store_down_def)

lemma setCachedData_oversized:
  "size_limit < utf8_size (stringify data) \<Longrightarrow> setCachedData stringify cacheKey data kv ttl = (Inr (), kv)"
  by (simp add: setCachedData_def setCachedData_try_def Let_def)

lemma setCachedData_within:
  "utf8_size (stringify data) \<le> size_limit \<Longrightarrow> failure store (KVPut cacheKey) = None \<Longrightarrow>
   setCachedData stringify cacheKey data (Some store) ttl =
     (Inr (), Some (store\<lparr>entries :=
        (cacheKey, stringify data, clock store + ttl) # filter (\<lambda>e. fst e \<noteq> cacheKey) (entries store)\<rparr>))"
  by (simp add: setCachedData_def setCachedData_try_def Let_def kv_put_def)

lemma kv_get_after_put:
  "0 < ttl \<Longrightarrow> failure store (KVGet cacheKey) = None \<Longrightarrow>
   kv_get cacheKey (store\<lparr>entries :=
        (cacheKey, text, clock store + ttl) # filter (\<lambda>e. fst e \<noteq> cacheKey) (entries store)\<rparr>) = Inr (Some text)"
  by (simp add: kv_get_def live_def)

text \<open>
  C7 (amended): the threshold is 25 * 1024 * 1024 bytes.  For a payload whose
  serialisation is larger, \<open>setCachedData\<close> returns without touching the store, so
  a later read of the key returns what it returned before.  For a payload at or below
  the threshold, and a store whose \<open>put\<close> succeeds, the serialisation is written
  under the key with expiry \<open>clock + ttl\<close>, and is what the store then holds for the
  key.
\<close>

theorem setCachedData_size_threshold:
  "size_limit = 25 * 1024 * 1024 \<and>
   (size_limit < utf8_size (stringify data) \<longrightarrow>
      setCachedData stringify cacheKey data kv ttl = (Inr (), kv) \<and>
      getCachedData parse cacheKey (snd (setCachedData stringify cacheKey data kv ttl)) =
        getCachedData parse cacheKey kv) \<and>
   (\<forall>store. utf8_size (stringify data) \<le> size_limit \<and> kv = Some store \<and>
        failure store (KVPut cacheKey) = None \<longrightarrow>
      setCachedData stringify cacheKey data kv ttl =
        (Inr (), Some (store\<lparr>entries :=
           (cacheKey, stringify data, clock store + ttl) #
             filter (\<lambda>e. fst e \<noteq> cacheKey) (entries store)\<rparr>)) \<and>
      (0 < ttl \<and> failure store (KVGet cacheKey) = None \<longrightarrow>
         kv_get cacheKey (store\<lparr>entries :=
           (cacheKey, stringify data, clock store + ttl) #
             filter (\<lambda>e. fst e \<noteq> cacheKey) (entries store)\<rparr>) = Inr (Some (stringify data))))"
proof -
  have a: "size_limit = 25 * 1024 * 1024" by (simp add: size_limit_def)
  have b: "size_limit < utf8_size (stringify data) \<longrightarrow>
      setCachedData stringify cacheKey data kv ttl = (Inr (), kv) \<and>
      getCachedData parse cacheKey (snd (setCachedData stringify cacheKey data kv ttl)) =
        getCachedData parse cacheKey kv"
    by (simp add: setCachedData_oversized)
  show ?thesis
    using a b setCachedData_within [of stringify data _ cacheKey ttl]
      kv_get_after_put [of ttl _ cacheKey "stringify data"]
    by blast
qed

theorem setCachedData_size_threshold_witness:
  "size_limit < utf8_size (stringify_text oversized) \<and>
   setCachedData stringify_text (str ''petitions:/api/petitions'') oversized (Some (store_up [])) 300 =
     (Inr (), Some (store_up [])) \<and>
   utf8_size (stringify_text (JString (str ''ok''))) \<le> size_limit \<and>
   setCachedData stringify_text (str ''petitions:/api/petitions'') (JString (str ''ok'')) (Some (store_up [])) 300 =
     (Inr (), Some (store_up [(str ''petitions:/api/petitions'', str ''\"ok\"'', 300)]))"
proof -
  have big: "size_limit < utf8_size (stringify_text oversized)"
    by (simp add: utf8_size_oversized)
  have small: "utf8_size (stringify_text (JString (str ''ok''))) \<le> size_limit"
    by (simp add: stringify_text_def size_limit_def str_simps)
  have up: "failure (store_up []) (KVPut (str ''petitions:/api/petitions'')) = None"
    by (simp add: store_up_def)
  from setCachedData_size_threshold [where stringify = stringify_text and data = oversized
      and kv = "Some (store_up [])" and cacheKey = "str ''petitions:/api/petitions''" and ttl = 300] big
  have r1: "setCachedData stringify_text (str ''petitions:/api/petitions'') oversized (Some (store_up [])) 300 =
     (Inr (), Some (store_up []))"
    by blast
  from setCachedData_size_threshold [where stringify = stringify_text and data = "JString (str ''ok'')"
      and kv = "Some (store_up [])" and cacheKey = "str ''petitions:/api/petitions''" and ttl = 300] small up
  have "setCachedData stringify_text (str ''petitions:/api/petitions'') (JString (str ''ok'')) (Some (store_up [])) 300 =
     (Inr (), Some ((store_up [])\<lparr>entries :=
           (str ''petitions:/api/petitions'', stringify_text (JString (str ''ok'')), clock (store_up []) + 300) #
             filter (\<lambda>e. fst e \<noteq> str ''petitions:/api/petitions'') (entries (store_up []))\<rparr>))"
    by blast
  then have r2: "setCachedData stringify_text (str ''petitions:/api/petitions'') (JString (str ''ok'')) (Some (store_up [])) 300 =
     (Inr (), Some (store_up [(str ''petitions:/api/petitions'', str ''\"ok\"'', 300)]))"
    by (simp add: store_up_def stringify_text_def str_simps)
  show ?thesis using big small r1 r2 by simp
qed

text \<open>
  The claim C7 as stated fails for a key that is already cached: the oversized write is
  skipped, the old entry stays, and the next read is a hit on it.
\<close>

theorem setCachedData_oversized_counterexample:
  "size_limit < utf8_size (stringify_text oversized) \<and>
   getCachedData parse_text (str ''petition:/api/petitions/1'')
     (snd (setCachedData stringify_text (str ''petition:/api/petitions/1'') oversized
        (Some (store_up [(str ''petition:/api/petitions/1'', str ''\"old\"'', 600)])) 600)) =
     Inr (JString (str ''old''))"
proof -
  have big: "size_limit < utf8_size (stringify_text oversized)"
    by (simp add: utf8_size_oversized)
  have "getCachedData parse_text (str ''petition:/api/petitions/1'')
     (Some (store_up [(str ''petition:/api/petitions/1'', str ''\"old\"'', 600)])) = Inr (JString (str ''old''))"
    by (simp add: getCachedData_def getCachedData_try_def kv_get_json_def kv_get_def live_def
        store_up_def parse_text_def str_simps)
  then show ?thesis using big by (simp add: setCachedData_oversized)
qed

text \<open>
  C5 (amended): on a hit (the lookup returns a value other than \<open>null\<close>)
  \<open>getOrSetCache\<close> returns the cached value and neither the store nor the world the
  loader runs in changes.  On a miss the loader runs once: its world is the loader's
  result world; when it returns data, that data is returned and the store is what
  \<open>setCachedData\<close> leaves, which holds the data under the key with the given ttl
  when the serialisation is within the size limit and the store's \<open>put\<close>
  succeeds; when the loader throws, the error propagates and the store is unchanged.
\<close>

theorem getOrSetCache_hit_miss:
  "(\<forall>v. getCachedData parse cacheKey kv = Inr v \<and> v \<noteq> JNull \<longrightarrow>
       getOrSetCache stringify parse cacheKey kv dataFetcher ttl w = (Inr v, kv, w)) \<and>
   (\<forall>data w'. getCachedData parse cacheKey kv = Inr JNull \<and> dataFetcher w = (Inr data, w') \<longrightarrow>
       getOrSetCache stringify parse cacheKey kv dataFetcher ttl w =
         (Inr data, snd (setCachedData stringify cacheKey data kv ttl), w')) \<and>
   (\<forall>e w'. getCachedData parse cacheKey kv = Inr JNull \<and> dataFetcher w = (Inl e, w') \<longrightarrow>
       getOrSetCache stringify parse cacheKey kv dataFetcher ttl w = (Inl e, kv, w')) \<and>
   (\<forall>data w' store. getCachedData parse cacheKey kv = Inr JNull \<and> dataFetcher w = (Inr data, w') \<and>
        utf8_size (stringify data) \<le> size_limit \<and> kv = Some store \<and>
        failure store (KVPut cacheKey) = None \<longrightarrow>
       getOrSetCache stringify parse cacheKey kv dataFetcher ttl w =
         (Inr data,
          Some (store\<lparr>entries :=
             (cacheKey, stringify data, clock store + ttl) #
               filter (\<lambda>e. fst e \<noteq> cacheKey) (entries store)\<rparr>),
          w'))"
proof -
  have hit: "\<forall>v. getCachedData parse cacheKey kv = Inr v \<and> v \<noteq> JNull \<longrightarrow>
       getOrSetCache stringify parse cacheKey kv dataFetcher ttl w = (Inr v, kv, w)"
    by (simp add: getOrSetCache_def)
  have miss: "\<forall>data w'. getCachedData parse cacheKey kv = Inr JNull \<and> dataFetcher w = (Inr data, w') \<longrightarrow>
       getOrSetCache stringify parse cacheKey kv dataFetcher ttl w =
         (Inr data, snd (setCachedData stringify cacheKey data kv ttl), w')"
    by (simp add: getOrSetCache_def)
  have fail: "\<forall>e w'. getCachedData parse cacheKey kv = Inr JNull \<and> dataFetcher w = (Inl e, w') \<longrightarrow>
       getOrSetCache stringify parse cacheKey kv dataFetcher ttl w = (Inl e, kv, w')"
    by (simp add: getOrSetCache_def)
  have stored: "\<forall>data w' store. getCachedData parse cacheKey kv = Inr JNull \<and> dataFetcher w = (Inr data, w') \<and>
        utf8_size (stringify data) \<le> size_limit \<and> kv = Some store \<and>
        failure store (KVPut cacheKey) = None \<longrightarrow>
       getOrSetCache stringify parse cacheKey kv dataFetcher ttl w =
         (Inr data,
          Some (store\<lparr>entries :=
             (cacheKey, stringify data, clock store + ttl) #
               filter (\<lambda>e. fst e \<noteq> cacheKey) (entries store)\<rparr>),
          w')"
    using miss by (auto simp: setCachedData_within)
  show ?thesis using hit miss fail stored by blast
qed

theorem getOrSetCache_hit_miss_witness:
  "getCachedData parse_text (str ''petition:/api/petitions/1'')
     (Some (store_up [(str ''petition:/api/petitions/1'', str ''\"cached\"'', 600)])) =
     Inr (JString (str ''cached'')) \<and>
   getOrSetCache stringify_text parse_text (str ''petition:/api/petitions/1'')
     (Some (store_up [(str ''petition:/api/petitions/1'', str ''\"cached\"'', 600)]))
     (counting_loader (JString (str ''fresh''))) 600 0 =
     (Inr (JString (str ''cached'')),
      Some (store_up [(str ''petition:/api/petitions/1'', str ''\"cached\"'', 600)]), 0) \<and>
   getCachedData parse_text (str ''petition:/api/petitions/1'') (Some (store_up [])) = Inr JNull \<and>
   getOrSetCache stringify_text parse_text (str ''petition:/api/petitions/1'')
     (Some (store_up [])) (counting_loader (JString (str ''fresh''))) 600 0 =
     (Inr (JString (str ''fresh'')),
      Some (store_up [(str ''petition:/api/petitions/1'', str ''\"fresh\"'', 600)]), 1)"
proof -
  let ?k = "str ''petition:/api/petitions/1''"
  let ?full = "Some (store_up [(?k, str ''\"cached\"'', 600)])"
  let ?empty = "Some (store_up [])"
  let ?load = "counting_loader (JString (str ''fresh''))"
  have h: "getCachedData parse_text ?k ?full = Inr (JString (str ''cached''))"
    by (simp add: getCachedData_def getCachedData_try_def kv_get_json_def kv_get_def live_def
        store_up_def parse_text_def str_simps)
  have m: "getCachedData parse_text ?k ?empty = Inr JNull"
    by (simp add: getCachedData_def getCachedData_try_def kv_get_json_def kv_get_def live_def
        store_up_def)
  have l: "?load 0 = (Inr (JString (str ''fresh'')), 1)"
    by (simp add: counting_loader_def)
  have sz: "utf8_size (stringify_text (JString (str ''fresh''))) \<le> size_limit"
    by (simp add: stringify_text_def size_limit_def str_simps)
  have up: "failure (store_up []) (KVPut ?k) = None"
    by (simp add: store_up_def)
  from getOrSetCache_hit_miss [where parse = parse_text and stringify = stringify_text
      and cacheKey = ?k and kv = ?full and dataFetcher = ?load and ttl = 600 and w = 0] h
  have r1: "getOrSetCache stringify_text parse_text ?k ?full ?load 600 0 =
      (Inr (JString (str ''cached'')), ?full, 0)"
    by blast
  from getOrSetCache_hit_miss [where parse = parse_text and stringify = stringify_text
      and cacheKey = ?k and kv = ?empty and dataFetcher = ?load and ttl = 600 and w = 0] m l sz up
  have "getOrSetCache stringify_text parse_text ?k ?empty ?load 600 0 =
      (Inr (JString (str ''fresh'')),
       Some ((store_up [])\<lparr>entries :=
             (?k, stringify_text (JString (str ''fresh'')), clock (store_up []) + 600) #
               filter (\<lambda>e. fst e \<noteq> ?k) (entries (store_up []))\<rparr>), 1)"
    by blast
  then have r2: "getOrSetCache stringify_text parse_text ?k ?empty ?load 600 0 =
      (Inr (JString (str ''fresh'')), Some (store_up [(?k, str ''\"fresh\"'', 600)]), 1)"
    by (simp add: store_up_def stringify_text_def str_simps)
  show ?thesis using h m r1 r2 by simp
qed

text \<open>
  The claim C5 as stated fails for a loader result over the size limit: the lookup
  misses, the loader runs, its result is returned, and nothing is stored.
\<close>

theorem getOrSetCache_oversized_counterexample:
  "getCachedData parse_text (str ''petitions:/api/petitions'') (Some (store_up [])) = Inr JNull \<and>
   getOrSetCache stringify_text parse_text (str ''petitions:/api/petitions'')
     (Some (store_up [])) (counting_loader oversized) 300 0 =
     (Inr oversized, Some (store_up []), 1)"
proof -
  have m: "getCachedData parse_text (str ''petitions:/api/petitions'') (Some (store_up [])) = Inr JNull"
    by (simp add: getCachedData_def getCachedData_try_def kv_get_json_def kv_get_def live_def
        store_up_def)
  have big: "size_limit < utf8_size (stringify_text oversized)"
    by (simp add: utf8_size_oversized)
  show ?thesis
    using m big by (simp add: getOrSetCache_def counting_loader_def setCachedData_oversized)
qed

section \<open>Properties of the validation\<close>

lemma map_of_concat_optional:
  "distinct (map fst shape) \<Longrightarrow> (k, sch) \<in> set shape \<Longrightarrow>
   (case map_of (concat (map (\<lambda>(k, sch).
        (let v = snd (sch (prop_of input k)) in if v = JUndefined then [] else [(k, v)])) shape)) k of
      None \<Rightarrow> JUndefined | Some v \<Rightarrow> v) = snd (sch (prop_of input k))"
proof (induction shape)
  case Nil
  then show ?case by simp
next
  case (Cons p shape)
  obtain k' sch' where p: "p = (k', sch')" by (cases p)
  show ?case
  proof (cases "k' = k")
    case True
    with Cons.prems p have same: "sch' = sch"
      by (auto simp: rev_image_eqI)
    have absent: "map_of (concat (map (\<lambda>(k, sch).
        (let v = snd (sch (prop_of input k)) in if v = JUndefined then [] else [(k, v)])) shape)) k = None"
    proof -
      have "k \<notin> fst ` set shape" using Cons.prems(1) p True by simp
      then have "k \<notin> fst ` set (concat (map (\<lambda>(k, sch).
        (let v = snd (sch (prop_of input k)) in if v = JUndefined then [] else [(k, v)])) shape))"
        by (force simp: Let_def split: if_splits)
      then show ?thesis by (simp add: map_of_eq_None_iff)
    qed
    show ?thesis using p True same absent by (simp add: Let_def)
  next
    case False
    with Cons.prems p have m: "(k, sch) \<in> set shape" by auto
    have d: "distinct (map fst shape)" using Cons.prems(1) by simp
    have IH: "(case map_of (concat (map (\<lambda>(k, sch).
        (let v = snd (sch (prop_of input k)) in if v = JUndefined then [] else [(k, v)])) shape)) k of
      None \<Rightarrow> JUndefined | Some v \<Rightarrow> v) = snd (sch (prop_of input k))"
      by (rule Cons.IH [OF d m])
    show ?thesis using p False IH by (simp add: Let_def)
  qed
qed

lemma prop_of_object_schema:
  "distinct (map fst shape) \<Longrightarrow> (k, sch) \<in> set shape \<Longrightarrow>
   prop_of (snd (object_schema shape (JObject ps))) k = snd (sch (prop_of (JObject ps) k))"
  using map_of_concat_optional [of shape k sch "JObject ps"]
  by (simp add: object_schema_def)

lemma create_shape_distinct:
  "distinct (map fst (basePetitionFields @ [(str ''created_by'', string_schema)]))"
  by (simp add: basePetitionFields_def str_simps)

lemma createPetitionObject_type:
  "prop_of (snd (createPetitionObject (JObject ps))) (str ''type'') =
     snd (type_schema (prop_of (JObject ps) (str ''type'')))"
  unfolding createPetitionObject_def
  by (rule prop_of_object_schema [OF create_shape_distinct]) (simp add: basePetitionFields_def)

lemma createPetitionObject_location:
  "prop_of (snd (createPetitionObject (JObject ps))) (str ''location'') =
     snd (location_schema (prop_of (JObject ps) (str ''location'')))"
  unfolding createPetitionObject_def
  by (rule prop_of_object_schema [OF create_shape_distinct]) (simp add: basePetitionFields_def)

lemma createPetitionObject_target_count:
  "prop_of (snd (createPetitionObject (JObject ps))) (str ''target_count'') =
     snd (target_count_schema (prop_of (JObject ps) (str ''target_count'')))"
  unfolding createPetitionObject_def
  by (rule prop_of_object_schema [OF create_shape_distinct]) (simp add: basePetitionFields_def)

lemma prop_of_defined_is_object: "prop_of payload k \<noteq> JUndefined \<Longrightarrow> \<exists>ps. payload = JObject ps"
  by (cases payload) auto

lemma aborted_nonempty: "aborted issues \<Longrightarrow> issues \<noteq> []"
  by (auto simp: aborted_def)

lemma location_issue_formatted:
  "formatZodError [\<lparr>issue_path = [Key (str ''location'')], issue_message = m, issue_continue = c\<rparr>] =
     [\<lparr>field = str ''location'', message = m\<rparr>]"
  by (simp add: formatZodError_def segment_string_def)

lemma formatZodError_append: "formatZodError (xs @ ys) = formatZodError xs @ formatZodError ys"
  by (simp add: formatZodError_def)

lemma safeParse_cases:
  "safeParse sch input = (if fst (sch input) = [] then Inr (snd (sch input)) else Inl (fst (sch input)))"
  by (cases "sch input"; cases "fst (sch input)") (auto simp: safeParse_def)

lemma local_without_location_rejected:
  assumes t: "prop_of payload (str ''type'') = JString (str ''local'')"
    and l: "prop_of payload (str ''location'') = JUndefined \<or>
            (\<exists>s. prop_of payload (str ''location'') = JString s \<and> trim s = [])"
  shows "\<exists>issues. safeParse createPetitionSchema payload = Inl issues \<and> issues \<noteq> [] \<and>
           (\<not> aborted (fst (createPetitionObject payload)) \<longrightarrow>
              \<lparr>field = str ''location'', message = str ''Location is required for local petitions''\<rparr>
                \<in> set (formatZodError issues))"
proof -
  from t obtain ps where p: "payload = JObject ps"
    using prop_of_defined_is_object [of payload "str ''type''"] by auto
  have ty: "prop_of (snd (createPetitionObject payload)) (str ''type'') = JString (str ''local'')"
    using t p by (simp add: createPetitionObject_type type_schema_def)
  have lo: "prop_of (snd (createPetitionObject payload)) (str ''location'') = JUndefined \<or>
            prop_of (snd (createPetitionObject payload)) (str ''location'') = JString []"
    using l p by (auto simp: createPetitionObject_location location_schema_def optional_def)
  have chk: "\<not> location_required (snd (createPetitionObject payload))"
    using ty lo by (auto simp: location_required_def)
  let ?iss = "\<lparr>issue_path = [Key (str ''location'')],
        issue_message = str ''Location is required for local petitions'',
        issue_continue = True\<rparr>"
  show ?thesis
  proof (cases "aborted (fst (createPetitionObject payload))")
    case True
    then have "createPetitionSchema payload = createPetitionObject payload"
      by (simp add: createPetitionSchema_def refine_def Let_def)
    then show ?thesis
      using True aborted_nonempty [OF True] by (simp add: safeParse_cases)
  next
    case False
    then have r: "createPetitionSchema payload =
        (fst (createPetitionObject payload) @ [?iss], snd (createPetitionObject payload))"
      using chk by (simp add: createPetitionSchema_def refine_def Let_def)
    have "\<lparr>field = str ''location'', message = str ''Location is required for local petitions''\<rparr>
        \<in> set (formatZodError (fst (createPetitionObject payload) @ [?iss]))"
      by (simp add: formatZodError_append location_issue_formatted)
    then show ?thesis using r by (simp add: safeParse_cases)
  qed
qed

lemma local_with_location_accepted:
  assumes t: "prop_of payload (str ''type'') = JString (str ''local'')"
    and l: "prop_of payload (str ''location'') = JString s" and ne: "trim s \<noteq> []"
    and ok: "fst (createPetitionObject payload) = []"
  shows "\<exists>v. safeParse createPetitionSchema payload = Inr v \<and>
           prop_of v (str ''type'') = JString (str ''local'') \<and>
           prop_of v (str ''location'') = JString (trim s) \<and>
           (prop_of payload (str ''target_count'') = JUndefined \<longrightarrow>
              prop_of v (str ''target_count'') = JNumber 1000)"
proof -
  from t obtain ps where p: "payload = JObject ps"
    using prop_of_defined_is_object [of payload "str ''type''"] by auto
  have ty: "prop_of (snd (createPetitionObject payload)) (str ''type'') = JString (str ''local'')"
    using t p by (simp add: createPetitionObject_type type_schema_def)
  have lo: "prop_of (snd (createPetitionObject payload)) (str ''location'') = JString (trim s)"
    using l p by (simp add: createPetitionObject_location location_schema_def optional_def)
  have tc: "prop_of payload (str ''target_count'') = JUndefined \<longrightarrow>
      prop_of (snd (createPetitionObject payload)) (str ''target_count'') = JNumber 1000"
    using p by (simp add: createPetitionObject_target_count target_count_schema_def)
  have chk: "location_required (snd (createPetitionObject payload))"
    using ty lo ne by (simp add: location_required_def)
  have "\<not> aborted (fst (createPetitionObject payload))"
    using ok by (simp add: aborted_def)
  then have "createPetitionSchema payload = createPetitionObject payload"
    using chk by (simp add: createPetitionSchema_def refine_def Let_def)
  then have "safeParse createPetitionSchema payload = Inr (snd (createPetitionObject payload))"
    using ok by (simp add: safeParse_cases)
  then show ?thesis using ty lo tc by simp
qed

text \<open>
  C3 (amended): a create payload of type \<open>local\<close> whose location is absent, empty or
  blank never validates, and the response built from its errors has status 422 and the
  body \<open>{ message: 'Validation failed', errors }\<close>; the errors name the field
  \<open>location\<close> whenever no field of the payload has a type error (a type error
  stops validation before the location rule is looked at).  A payload of type
  \<open>local\<close> whose fields raise no issue and whose location is not blank validates;
  the validated location is the trimmed one and \<open>target_count\<close> is 1000 when the
  payload omits it.
\<close>

theorem createPetitionSchema_local_location:
  "(prop_of payload (str ''type'') = JString (str ''local'') \<and>
    (prop_of payload (str ''location'') = JUndefined \<or>
     (\<exists>s. prop_of payload (str ''location'') = JString s \<and> trim s = [])) \<longrightarrow>
      (\<exists>issues. safeParse createPetitionSchema payload = Inl issues \<and>
         status (createValidationErrorResponse (formatZodError issues) request env) = 422 \<and>
         body (createValidationErrorResponse (formatZodError issues) request env) =
           Some (JObject [(str ''message'', JString (str ''Validation failed'')),
                          (str ''errors'', JArray (map FieldError_json (formatZodError issues)))]) \<and>
         (\<not> aborted (fst (createPetitionObject payload)) \<longrightarrow>
            \<lparr>field = str ''location'', message = str ''Location is required for local petitions''\<rparr>
              \<in> set (formatZodError issues)))) \<and>
   (\<forall>s. prop_of payload (str ''type'') = JString (str ''local'') \<and>
        prop_of payload (str ''location'') = JString s \<and> trim s \<noteq> [] \<and>
        fst (createPetitionObject payload) = [] \<longrightarrow>
      (\<exists>v. safeParse createPetitionSchema payload = Inr v \<and>
         prop_of v (str ''location'') = JString (trim s) \<and>
         (prop_of payload (str ''target_count'') = JUndefined \<longrightarrow>
            prop_of v (str ''target_count'') = JNumber 1000)))"
proof -
  have resp: "\<And>issues. status (createValidationErrorResponse (formatZodError issues) request env) = 422 \<and>
         body (createValidationErrorResponse (formatZodError issues) request env) =
           Some (JObject [(str ''message'', JString (str ''Validation failed'')),
                          (str ''errors'', JArray (map FieldError_json (formatZodError issues)))])"
    by (simp add: createValidationErrorResponse_def)
  have a: "prop_of payload (str ''type'') = JString (str ''local'') \<and>
    (prop_of payload (str ''location'') = JUndefined \<or>
     (\<exists>s. prop_of payload (str ''location'') = JString s \<and> trim s = [])) \<longrightarrow>
      (\<exists>issues. safeParse createPetitionSchema payload = Inl issues \<and>
         status (createValidationErrorResponse (formatZodError issues) request env) = 422 \<and>
         body (createValidationErrorResponse (formatZodError issues) request env) =
           Some (JObject [(str ''message'', JString (str ''Validation failed'')),
                          (str ''errors'', JArray (map FieldError_json (formatZodError issues)))]) \<and>
         (\<not> aborted (fst (createPetitionObject payload)) \<longrightarrow>
            \<lparr>field = str ''location'', message = str ''Location is required for local petitions''\<rparr>
              \<in> set (formatZodError issues)))"
    using local_without_location_rejected [of payload] resp by blast
  have b: "\<forall>s. prop_of payload (str ''type'') = JString (str ''local'') \<and>
        prop_of payload (str ''location'') = JString s \<and> trim s \<noteq> [] \<and>
        fst (createPetitionObject payload) = [] \<longrightarrow>
      (\<exists>v. safeParse createPetitionSchema payload = Inr v \<and>
         prop_of v (str ''location'') = JString (trim s) \<and>
         (prop_of payload (str ''target_count'') = JUndefined \<longrightarrow>
            prop_of v (str ''target_count'') = JNumber 1000))"
    using local_with_location_accepted [of payload] by blast
  show ?thesis using a b by blast
qed

lemma example_description_length: "length example_description = 103"
  by (simp add: example_description_def str_simps)

lemma trim_example_title: "trim example_title = example_title"
  by (simp add: example_title_def trim_def isWhiteSpace_def str_simps)

lemma trim_example_description: "trim example_description = example_description"
  by (simp add: example_description_def trim_def isWhiteSpace_def str_simps)

lemma createPetitionObject_without_location:
  "fst (createPetitionObject local_without_location) = []"
  by (simp add: createPetitionObject_def object_schema_def basePetitionFields_def
      local_without_location_def title_schema_def description_schema_def type_schema_def
      location_schema_def target_count_schema_def category_ids_schema_def string_schema_def
      optional_def prefixIssues_def example_description_length str_simps)
    (simp add: example_title_def str_simps)

lemma createPetitionObject_with_location:
  "fst (createPetitionObject local_with_location) = []"
  by (simp add: createPetitionObject_def object_schema_def basePetitionFields_def
      local_with_location_def title_schema_def description_schema_def type_schema_def
      location_schema_def target_count_schema_def category_ids_schema_def string_schema_def
      optional_def prefixIssues_def example_description_length str_simps)
    (simp add: example_title_def str_simps)

theorem createPetitionSchema_local_location_witness:
  "prop_of local_without_location (str ''type'') = JString (str ''local'') \<and>
   prop_of local_without_location (str ''location'') = JUndefined \<and>
   (\<exists>issues. safeParse createPetitionSchema local_without_location = Inl issues \<and>
      \<lparr>field = str ''location'', message = str ''Location is required for local petitions''\<rparr>
        \<in> set (formatZodError issues)) \<and>
   prop_of local_with_location (str ''location'') = JString (str ''Manila'') \<and>
   prop_of local_with_location (str ''target_count'') = JUndefined \<and>
   (\<exists>v. safeParse createPetitionSchema local_with_location = Inr v \<and>
      prop_of v (str ''location'') = JString (str ''Manila'') \<and>
      prop_of v (str ''target_count'') = JNumber 1000)"
proof -
  have t1: "prop_of local_without_location (str ''type'') = JString (str ''local'')"
    by (simp add: local_without_location_def str_simps)
  have l1: "prop_of local_without_location (str ''location'') = JUndefined"
    by (simp add: local_without_location_def str_simps)
  have n1: "\<not> aborted (fst (createPetitionObject local_without_location))"
    by (simp add: createPetitionObject_without_location aborted_def)
  have t2: "prop_of local_with_location (str ''type'') = JString (str ''local'')"
    by (simp add: local_with_location_def str_simps)
  have l2: "prop_of local_with_location (str ''location'') = JString (str ''Manila'')"
    by (simp add: local_with_location_def str_simps)
  have c2: "prop_of local_with_location (str ''target_count'') = JUndefined"
    by (simp add: local_with_location_def str_simps)
  have tr: "trim (str ''Manila'') = str ''Manila''" "str ''Manila'' \<noteq> []"
    by (simp_all add: trim_def isWhiteSpace_def str_simps)
  from createPetitionSchema_local_location [of local_without_location] t1 l1 n1
  have r1: "\<exists>issues. safeParse createPetitionSchema local_without_location = Inl issues \<and>
      \<lparr>field = str ''location'', message = str ''Location is required for local petitions''\<rparr>
        \<in> set (formatZodError issues)"
    by blast
  from createPetitionSchema_local_location [of local_with_location] t2 l2 c2 tr
    createPetitionObject_with_location
  have r2: "\<exists>v. safeParse createPetitionSchema local_with_location = Inr v \<and>
      prop_of v (str ''location'') = JString (str ''Manila'') \<and>
      prop_of v (str ''target_count'') = JNumber 1000"
    by (metis (no_types, lifting))
  show ?thesis using t1 l1 r1 l2 c2 r2 by blast
qed

text \<open>
  The claim C3 as stated fails for a payload that has a type error elsewhere: with
  the title and description missing, the errors name those two fields and not
  \<open>location\<close>.
\<close>

theorem createPetitionSchema_type_error_counterexample:
  "prop_of local_type_only (str ''type'') = JString (str ''local'') \<and>
   prop_of local_type_only (str ''location'') = JUndefined \<and>
   safeParse createPetitionSchema local_type_only =
     Inl [\<lparr>issue_path = [Key (str ''title'')], issue_message = str ''Title is required'',
           issue_continue = False\<rparr>,
          \<lparr>issue_path = [Key (str ''description'')], issue_message = str ''Description is required'',
           issue_continue = False\<rparr>] \<and>
   formatZodError
     [\<lparr>issue_path = [Key (str ''title'')], issue_message = str ''Title is required'',
       issue_continue = False\<rparr>,
      \<lparr>issue_path = [Key (str ''description'')], issue_message = str ''Description is required'',
       issue_continue = False\<rparr>] =
     [\<lparr>field = str ''title'', message = str ''Title is required''\<rparr>,
      \<lparr>field = str ''description'', message = str ''Description is required''\<rparr>]"
proof -
  have obj: "createPetitionObject local_type_only =
     ([\<lparr>issue_path = [Key (str ''title'')], issue_message = str ''Title is required'',
           issue_continue = False\<rparr>,
          \<lparr>issue_path = [Key (str ''description'')], issue_message = str ''Description is required'',
           issue_continue = False\<rparr>],
      JObject [(str ''type'', JString (str ''local'')),
               (str ''target_count'', JNumber 1000), (str ''created_by'', JString (str ''user123''))])"
    by (simp add: createPetitionObject_def object_schema_def basePetitionFields_def
      local_type_only_def title_schema_def description_schema_def type_schema_def
      location_schema_def target_count_schema_def category_ids_schema_def string_schema_def
      optional_def prefixIssues_def issue_def str_simps)
  have "safeParse createPetitionSchema local_type_only =
     Inl [\<lparr>issue_path = [Key (str ''title'')], issue_message = str ''Title is required'',
           issue_continue = False\<rparr>,
          \<lparr>issue_path = [Key (str ''description'')], issue_message = str ''Description is required'',
           issue_continue = False\<rparr>]"
    by (simp add: safeParse_def createPetitionSchema_def refine_def obj aborted_def)
  moreover have "prop_of local_type_only (str ''type'') = JString (str ''local'')"
      "prop_of local_type_only (str ''location'') = JUndefined"
    by (simp_all add: local_type_only_def str_simps)
  ultimately show ?thesis
    by (simp add: formatZodError_def segment_string_def)
qed

section \<open>Properties of the handlers\<close>

lemma status_createCachedResponse:
  "status (createCachedResponse stringify date data request env cacheMaxAge) = 304 \<or>
   status (createCachedResponse stringify date data request env cacheMaxAge) = 200"
  by (simp add: createCachedResponse_def Let_def)

lemma invalidate_both_status:
  "invalidate_both payload kv w = (Inr r, kv', w') \<Longrightarrow> r = createSuccessResponse payload"
  by (auto simp: invalidate_both_def split: prod.splits sum.splits)

lemma handle_get_status:
  "handle_get svc rt ctx petitionId kv w = (Inr r, kv', w') \<Longrightarrow> status r = 304 \<or> status r = 200"
proof -
  assume "handle_get svc rt ctx petitionId kv w = (Inr r, kv', w')"
  then obtain petition where "r = createCachedResponse (rt_stringify rt) (rt_date rt) petition
                (ctx_request ctx) (ctx_env ctx) (10 * 60)"
    by (auto simp: handle_get_def Let_def split: prod.splits sum.splits)
  then show ?thesis
    using status_createCachedResponse [of "rt_stringify rt" "rt_date rt" petition
        "ctx_request ctx" "ctx_env ctx" "10 * 60"]
    by simp
qed

lemma handle_put_status:
  "handle_put svc rt ctx petitionId kv w = (Inr r, kv', w') \<Longrightarrow> status r = 422 \<or> status r = 200"
  by (auto simp: handle_put_def createValidationErrorResponse_def createSuccessResponse_def
      dest!: invalidate_both_status split: prod.splits sum.splits)

lemma handle_delete_status:
  "handle_delete svc petitionId kv w = (Inr r, kv', w') \<Longrightarrow> status r = 200"
  by (auto simp: handle_delete_def createSuccessResponse_def
      dest!: invalidate_both_status split: prod.splits sum.splits)

lemma status_createCachedErrorResponse [simp]:
  "status (createCachedErrorResponse e request env st) = st"
  by (simp add: createCachedErrorResponse_def)

lemma onRequest_petition_try_Finite_status:
  assumes "parseInt (params_id ctx) 0 = Finite n"
    and "onRequest_petition_try svc rt ctx kv w = (Inr r, kv', w')"
  shows "status r \<noteq> 400"
proof -
  let ?pid = "JNumber (of_int n)"
  consider (get) "http_method (ctx_request ctx) = str ''GET''"
    | (put) "http_method (ctx_request ctx) \<noteq> str ''GET''" "http_method (ctx_request ctx) = str ''PUT''"
    | (del) "http_method (ctx_request ctx) \<noteq> str ''GET''" "http_method (ctx_request ctx) \<noteq> str ''PUT''"
        "http_method (ctx_request ctx) = str ''DELETE''"
    | (other) "http_method (ctx_request ctx) \<noteq> str ''GET''" "http_method (ctx_request ctx) \<noteq> str ''PUT''"
        "http_method (ctx_request ctx) \<noteq> str ''DELETE''"
    by blast
  then show ?thesis
  proof cases
    case get
    then have "handle_get svc rt ctx ?pid kv w = (Inr r, kv', w')"
      using assms by (simp add: onRequest_petition_try_def)
    then show ?thesis using handle_get_status by fastforce
  next
    case put
    then have "handle_put svc rt ctx ?pid kv w = (Inr r, kv', w')"
      using assms by (simp add: onRequest_petition_try_def)
    then show ?thesis using handle_put_status by fastforce
  next
    case del
    then have "handle_delete svc ?pid kv w = (Inr r, kv', w')"
      using assms by (simp add: onRequest_petition_try_def)
    then show ?thesis using handle_delete_status by fastforce
  next
    case other
    then have "r = createCachedErrorResponse (NotAnError (JString (str ''Method not allowed'')))
                      (ctx_request ctx) (ctx_env ctx) 405"
      using assms by (simp add: onRequest_petition_try_def)
    then show ?thesis by simp
  qed
qed

lemma onRequest_petition_NaN:
  assumes "http_method (ctx_request ctx) \<noteq> str ''OPTIONS''"
    and "parseInt (params_id ctx) 0 = NaN"
  shows "onRequest_petition svc rt ctx kv w =
     (createCachedErrorResponse (NotAnError (JString (str ''Invalid petition ID'')))
        (ctx_request ctx) (ctx_env ctx) 400, kv, w)"
  using assms by (simp add: onRequest_petition_def handleCORS_def onRequest_petition_try_def)

lemma onRequest_petition_Finite:
  assumes "http_method (ctx_request ctx) \<noteq> str ''OPTIONS''"
    and "parseInt (params_id ctx) 0 = Finite n"
  shows "status (fst (onRequest_petition svc rt ctx kv w)) \<noteq> 400"
proof (cases "onRequest_petition_try svc rt ctx kv w")
  case (fields res kv' w')
  show ?thesis
  proof (cases res)
    case (Inl e)
    then show ?thesis using assms(1) fields
      by (simp add: onRequest_petition_def handleCORS_def)
  next
    case (Inr r)
    then have "onRequest_petition_try svc rt ctx kv w = (Inr r, kv', w')"
      using fields by simp
    then have "status r \<noteq> 400"
      by (rule onRequest_petition_try_Finite_status [OF assms(2)])
    then show ?thesis using assms(1) fields Inr
      by (simp add: onRequest_petition_def handleCORS_def)
  qed
qed

lemma onRequest_petition_id_only_parsed:
  assumes "parseInt id' 0 = parseInt (params_id ctx) 0"
  shows "onRequest_petition svc rt (ctx\<lparr>params_id := id'\<rparr>) kv w = onRequest_petition svc rt ctx kv w"
proof -
  have g: "handle_get svc rt (ctx\<lparr>params_id := id'\<rparr>) pid kv w = handle_get svc rt ctx pid kv w" for pid
    by (simp add: handle_get_def split: prod.splits sum.splits)
  have u: "update_payload rt (ctx\<lparr>params_id := id'\<rparr>) = update_payload rt ctx"
    by (simp add: update_payload_def split: prod.splits sum.splits)
  have p: "handle_put svc rt (ctx\<lparr>params_id := id'\<rparr>) pid kv w = handle_put svc rt ctx pid kv w" for pid
    by (simp add: handle_put_def u split: prod.splits sum.splits)
  have t: "onRequest_petition_try svc rt (ctx\<lparr>params_id := id'\<rparr>) kv w =
           onRequest_petition_try svc rt ctx kv w"
    using assms by (cases "parseInt (params_id ctx) 0") (simp_all add: onRequest_petition_try_def g p Let_def cong: if_cong)
  show ?thesis
    by (simp add: onRequest_petition_def t split: prod.splits sum.splits option.splits)
qed

lemma parseInt_5abc: "parseInt (str ''5abc'') 0 = Finite 5"
  by (simp add: parseInt_def isWhiteSpace_def digitValue_def Let_def str_simps)

text \<open>
  C10 (amended): for every request to \<open>/api/petitions/{id}\<close> other than a preflight
  (\<open>OPTIONS\<close>), the handler answers with status 400 exactly when \<open>parseInt\<close> of
  the id is \<open>NaN\<close>, and then neither the cache nor the rest of the world has been
  touched.  The handler sees the id through \<open>parseInt\<close> only: \<open>5abc\<close> parses to
  5 and is handled as petition 5.
\<close>

theorem invalid_petition_id:
  assumes "http_method (ctx_request ctx) \<noteq> str ''OPTIONS''"
  shows "(status (fst (onRequest_petition svc rt ctx kv w)) = 400 \<longleftrightarrow>
            parseInt (params_id ctx) 0 = NaN) \<and>
         (parseInt (params_id ctx) 0 = NaN \<longrightarrow>
            snd (onRequest_petition svc rt ctx kv w) = (kv, w)) \<and>
         parseInt (str ''5abc'') 0 = Finite 5 \<and>
         (\<forall>id'. parseInt id' 0 = parseInt (params_id ctx) 0 \<longrightarrow>
            onRequest_petition svc rt (ctx\<lparr>params_id := id'\<rparr>) kv w =
              onRequest_petition svc rt ctx kv w)"
proof -
  have a: "status (fst (onRequest_petition svc rt ctx kv w)) = 400 \<longleftrightarrow>
            parseInt (params_id ctx) 0 = NaN"
  proof (cases "parseInt (params_id ctx) 0")
    case NaN
    then show ?thesis using onRequest_petition_NaN [OF assms NaN, of svc rt kv w] by simp
  next
    case (Finite n)
    then show ?thesis using onRequest_petition_Finite [OF assms Finite, of svc rt kv w] by simp
  qed
  have b: "parseInt (params_id ctx) 0 = NaN \<longrightarrow> snd (onRequest_petition svc rt ctx kv w) = (kv, w)"
    using onRequest_petition_NaN [OF assms, of svc rt kv w] by simp
  have c: "\<forall>id'. parseInt id' 0 = parseInt (params_id ctx) 0 \<longrightarrow>
            onRequest_petition svc rt (ctx\<lparr>params_id := id'\<rparr>) kv w =
              onRequest_petition svc rt ctx kv w"
    using onRequest_petition_id_only_parsed [of _ ctx svc rt kv w] by blast
  show ?thesis
    using a b c parseInt_5abc by blast
qed

lemma parseInt_abc: "parseInt (str ''abc'') 0 = NaN"
  by (simp add: parseInt_def isWhiteSpace_def digitValue_def Let_def str_simps)

theorem invalid_petition_id_witness:
  "http_method (ctx_request (example_context (str ''DELETE'') (str ''abc'') JNull None)) \<noteq> str ''OPTIONS'' \<and>
   parseInt (str ''abc'') 0 = NaN \<and>
   status (fst (onRequest_petition (memory_services JNull) example_runtime
       (example_context (str ''DELETE'') (str ''abc'') JNull None) (Some (store_up [])) [])) = 400 \<and>
   snd (onRequest_petition (memory_services JNull) example_runtime
       (example_context (str ''DELETE'') (str ''abc'') JNull None) (Some (store_up [])) []) =
     (Some (store_up []), []) \<and>
   onRequest_petition (memory_services JNull) example_runtime
       (example_context (str ''DELETE'') (str ''5abc'') JNull None) (Some (store_up [])) [] =
     onRequest_petition (memory_services JNull) example_runtime
       (example_context (str ''DELETE'') (str ''5'') JNull None) (Some (store_up [])) []"
proof -
  let ?bad = "example_context (str ''DELETE'') (str ''abc'') JNull None"
  let ?five = "example_context (str ''DELETE'') (str ''5'') JNull None"
  have m1: "http_method (ctx_request ?bad) \<noteq> str ''OPTIONS''"
    by (simp add: example_context_def str_simps)
  have m2: "http_method (ctx_request ?five) \<noteq> str ''OPTIONS''"
    by (simp add: example_context_def str_simps)
  have n: "parseInt (params_id ?bad) 0 = NaN"
    by (simp add: example_context_def parseInt_abc)
  have five: "parseInt (str ''5abc'') 0 = parseInt (params_id ?five) 0"
    by (simp add: example_context_def parseInt_def isWhiteSpace_def digitValue_def Let_def str_simps)
  have upd: "?five\<lparr>params_id := str ''5abc''\<rparr> = example_context (str ''DELETE'') (str ''5abc'') JNull None"
    by (simp add: example_context_def)
  from invalid_petition_id [OF m1, of "memory_services JNull" example_runtime "Some (store_up [])" "[]"] n
  have r1: "status (fst (onRequest_petition (memory_services JNull) example_runtime ?bad (Some (store_up [])) [])) = 400 \<and>
            snd (onRequest_petition (memory_services JNull) example_runtime ?bad (Some (store_up [])) []) =
              (Some (store_up []), [])"
    by blast
  from invalid_petition_id [OF m2, of "memory_services JNull" example_runtime "Some (store_up [])" "[]"] five
  have "onRequest_petition (memory_services JNull) example_runtime (?five\<lparr>params_id := str ''5abc''\<rparr>)
          (Some (store_up [])) [] =
        onRequest_petition (memory_services JNull) example_runtime ?five (Some (store_up [])) []"
    by blast
  then have r2: "onRequest_petition (memory_services JNull) example_runtime
       (example_context (str ''DELETE'') (str ''5abc'') JNull None) (Some (store_up [])) [] =
     onRequest_petition (memory_services JNull) example_runtime ?five (Some (store_up [])) []"
    using upd by simp
  show ?thesis using m1 parseInt_abc r1 r2 by blast
qed

text \<open>
  The claim C10 as stated fails for a preflight request: \<open>OPTIONS\<close> is answered with
  204 before the id is looked at, whatever the id.
\<close>

theorem invalid_petition_id_preflight_counterexample:
  "parseInt (params_id (example_context (str ''OPTIONS'') (str ''abc'') JNull None)) 0 = NaN \<and>
   status (fst (onRequest_petition (memory_services JNull) example_runtime
       (example_context (str ''OPTIONS'') (str ''abc'') JNull None) (Some (store_up [])) [])) = 204"
  by (simp add: example_context_def parseInt_abc onRequest_petition_def handleCORS_def)

lemma reliable_entries [simp]: "reliable (store\<lparr>entries := es\<rparr>) = reliable store"
  by (simp add: reliable_def)

lemma delete_all_reliable:
  "reliable store \<Longrightarrow>
   delete_all keys store = (None, store\<lparr>entries := filter (\<lambda>e. fst e \<notin> set keys) (entries store)\<rparr>)"
proof (induction keys arbitrary: store)
  case Nil
  then show ?case by simp
next
  case (Cons key keys)
  let ?s1 = "store\<lparr>entries := filter (\<lambda>e. fst e \<noteq> key) (entries store)\<rparr>"
  have d: "kv_delete key store = Inr ?s1"
    using Cons.prems by (simp add: kv_delete_def reliable_def)
  have r1: "reliable ?s1" using Cons.prems by simp
  have "delete_all keys ?s1 =
      (None, ?s1\<lparr>entries := filter (\<lambda>e. fst e \<notin> set keys) (entries ?s1)\<rparr>)"
    by (rule Cons.IH [OF r1])
  moreover have "filter (\<lambda>e. fst e \<notin> set keys) (filter (\<lambda>e. fst e \<noteq> key) (entries store)) =
      filter (\<lambda>e. fst e \<notin> set (key # keys)) (entries store)"
    by (induction "entries store") auto
  ultimately show ?case using d by simp
qed

lemma invalidateCachePattern_reliable:
  assumes "reliable store"
  shows "invalidateCachePattern p (Some store) = (Inr (), Some (invalidated p store))"
proof -
  let ?keys = "map fst (filter (\<lambda>e. startsWith (fst e) p) (live store))"
  have l: "kv_list p store = Inr ?keys"
    using assms by (simp add: kv_list_def reliable_def)
  show ?thesis
  proof (cases "?keys = []")
    case True
    then have "invalidated p store = store"
      by (simp add: invalidated_def)
    then show ?thesis using l True
      by (simp add: invalidateCachePattern_def invalidateCachePattern_try_def)
  next
    case False
    then show ?thesis using l delete_all_reliable [OF assms, of ?keys]
      by (simp add: invalidateCachePattern_def invalidateCachePattern_try_def invalidated_def)
  qed
qed

lemma invalidated_facts:
  "reliable (invalidated p store) = reliable store"
  "clock (invalidated p store) = clock store"
  "set (entries (invalidated p store)) \<subseteq> set (entries store)"
  by (auto simp: invalidated_def)

lemma all_expired_invalidated: "all_expired p (invalidated p store)"
  unfolding all_expired_def
proof (intro ballI impI)
  fix e
  assume e: "e \<in> set (entries (invalidated p store))" and sw: "startsWith (fst e) p"
  show "snd (snd e) \<le> clock (invalidated p store)"
  proof (rule ccontr)
    assume "\<not> snd (snd e) \<le> clock (invalidated p store)"
    then have lt: "clock store < snd (snd e)" by (simp add: invalidated_def)
    from e have ein: "e \<in> set (entries store)"
      and notin: "fst e \<notin> fst ` set (filter (\<lambda>e. startsWith (fst e) p) (live store))"
      by (simp_all add: invalidated_def)
    have "e \<in> set (live store)"
      using ein lt by (simp add: live_def case_prod_unfold)
    then have "e \<in> set (filter (\<lambda>e. startsWith (fst e) p) (live store))"
      using sw by simp
    then have "fst e \<in> fst ` set (filter (\<lambda>e. startsWith (fst e) p) (live store))"
      by (rule imageI)
    with notin show False by simp
  qed
qed

lemma all_expired_subset:
  "all_expired p store \<Longrightarrow> set (entries store') \<subseteq> set (entries store) \<Longrightarrow>
   clock store' = clock store \<Longrightarrow> all_expired p store'"
  unfolding all_expired_def by auto

lemma all_expired_miss:
  assumes "all_expired p store" and "reliable store" and "startsWith k p" and "clock store \<le> t"
  shows "getCachedData parse k (Some (store\<lparr>clock := t\<rparr>)) = Inr JNull"
proof -
  have "k \<notin> fst ` set (live (store\<lparr>clock := t\<rparr>))"
  proof
    assume "k \<in> fst ` set (live (store\<lparr>clock := t\<rparr>))"
    then obtain e where e: "e \<in> set (entries store)" "fst e = k" "t < snd (snd e)"
      by (auto simp: live_def)
    then have "snd (snd e) \<le> clock store"
      using assms(1,3) unfolding all_expired_def by blast
    then show False using e assms(4) by simp
  qed
  then have "map_of (live (store\<lparr>clock := t\<rparr>)) k = None"
    by (simp add: map_of_eq_None_iff)
  then show ?thesis
    using assms(2)
    by (simp add: getCachedData_def getCachedData_try_def kv_get_json_def kv_get_def reliable_def)
qed

lemma invalidate_both_reliable:
  assumes "reliable store"
  shows "invalidate_both payload (Some store) w =
     (Inr (createSuccessResponse payload),
      Some (invalidated (str ''petition:'') (invalidated (str ''petitions:'') store)), w)"
proof -
  have r1: "reliable (invalidated (str ''petitions:'') store)"
    using assms by (simp add: invalidated_facts)
  show ?thesis
    by (simp add: invalidate_both_def invalidateCachePattern_reliable [OF assms]
        invalidateCachePattern_reliable [OF r1])
qed

lemma both_invalidated_miss:
  assumes "reliable store" and "startsWith k (str ''petitions:'') \<or> startsWith k (str ''petition:'')"
    and "clock store \<le> t"
  shows "getCachedData parse k
     (Some ((invalidated (str ''petition:'') (invalidated (str ''petitions:'') store))\<lparr>clock := t\<rparr>)) = Inr JNull"
proof -
  let ?s1 = "invalidated (str ''petitions:'') store"
  let ?s2 = "invalidated (str ''petition:'') ?s1"
  have r2: "reliable ?s2" using assms(1) by (simp add: invalidated_facts)
  have c2: "clock ?s2 = clock store" by (simp add: invalidated_facts)
  have e1: "all_expired (str ''petitions:'') ?s2"
    by (rule all_expired_subset [OF all_expired_invalidated [of "str ''petitions:''" store]])
       (simp_all add: invalidated_facts)
  have e2: "all_expired (str ''petition:'') ?s2"
    by (rule all_expired_invalidated)
  from assms(2) show ?thesis
  proof
    assume "startsWith k (str ''petitions:'')"
    then show ?thesis using all_expired_miss [OF e1 r2 _ ] assms(3) c2 by simp
  next
    assume "startsWith k (str ''petition:'')"
    then show ?thesis using all_expired_miss [OF e2 r2 _ ] assms(3) c2 by simp
  qed
qed

lemma one_invalidated_miss:
  assumes "reliable store" and "startsWith k (str ''petitions:'')" and "clock store \<le> t"
  shows "getCachedData parse k (Some ((invalidated (str ''petitions:'') store)\<lparr>clock := t\<rparr>)) = Inr JNull"
proof -
  let ?s1 = "invalidated (str ''petitions:'') store"
  have r: "reliable ?s1" using assms(1) by (simp add: invalidated_facts)
  have c: "clock ?s1 = clock store" by (simp add: invalidated_facts)
  show ?thesis
    using all_expired_miss [OF all_expired_invalidated r assms(2)] assms(3) c by simp
qed

lemma status_createSuccessResponse [simp]: "status (createSuccessResponse payload) = 200"
  by (simp add: createSuccessResponse_def)

lemma status_createValidationErrorResponse [simp]:
  "status (createValidationErrorResponse errors request env) = 422"
  by (simp add: createValidationErrorResponse_def)

lemma handle_put_success:
  assumes "reliable store"
    and "handle_put svc rt ctx pid (Some store) w = (Inr r, kv', w')" and "status r = 200"
  shows "kv' = Some (invalidated (str ''petition:'') (invalidated (str ''petitions:'') store))"
  using assms(2,3)
  by (auto simp: handle_put_def invalidate_both_reliable [OF assms(1)]
      split: sum.splits prod.splits)

lemma handle_delete_success:
  assumes "reliable store"
    and "handle_delete svc pid (Some store) w = (Inr r, kv', w')"
  shows "kv' = Some (invalidated (str ''petition:'') (invalidated (str ''petitions:'') store))"
  using assms(2)
  by (auto simp: handle_delete_def invalidate_both_reliable [OF assms(1)]
      split: sum.splits prod.splits)

lemma handle_post_success:
  assumes "reliable store"
    and "handle_post svc rt ctx (Some store) w = (Inr r, kv', w')" and "status r = 200"
  shows "kv' = Some (invalidated (str ''petitions:'') store)"
  using assms(2,3)
  by (auto simp: handle_post_def invalidateCachePattern_reliable [OF assms(1)]
      split: sum.splits prod.splits option.splits)

lemma onRequest_petition_mutation_success:
  assumes r: "reliable store"
    and m: "http_method (ctx_request ctx) = str ''PUT'' \<or> http_method (ctx_request ctx) = str ''DELETE''"
    and ok: "status (fst (onRequest_petition svc rt ctx (Some store) w)) = 200"
  shows "fst (snd (onRequest_petition svc rt ctx (Some store) w)) =
     Some (invalidated (str ''petition:'') (invalidated (str ''petitions:'') store))"
proof -
  have nopt: "handleCORS (ctx_request ctx) (ctx_env ctx) = None"
    using m by (auto simp: handleCORS_def str_simps)
  obtain res kv' w' where t: "onRequest_petition_try svc rt ctx (Some store) w = (res, kv', w')"
    by (cases "onRequest_petition_try svc rt ctx (Some store) w") auto
  show ?thesis
  proof (cases res)
    case (Inl e)
    then have "status (fst (onRequest_petition svc rt ctx (Some store) w)) = 500"
      using t nopt by (simp add: onRequest_petition_def)
    with ok show ?thesis by simp
  next
    case (Inr response)
    then have whole: "onRequest_petition svc rt ctx (Some store) w = (response, kv', w')"
      using t nopt by (simp add: onRequest_petition_def)
    then have st: "status response = 200" using ok by simp
    show ?thesis
    proof (cases "parseInt (params_id ctx) 0")
      case NaN
      then have "status response = 400"
        using t Inr by (auto simp: onRequest_petition_try_def)
      with st show ?thesis by simp
    next
      case (Finite n)
      from m show ?thesis
      proof
        assume "http_method (ctx_request ctx) = str ''PUT''"
        then have "handle_put svc rt ctx (JNumber (of_int n)) (Some store) w = (Inr response, kv', w')"
          using t Inr Finite by (simp add: onRequest_petition_try_def str_simps)
        then have "kv' = Some (invalidated (str ''petition:'') (invalidated (str ''petitions:'') store))"
          using st by (rule handle_put_success [OF r])
        then show ?thesis using whole by simp
      next
        assume "http_method (ctx_request ctx) = str ''DELETE''"
        then have "handle_delete svc (JNumber (of_int n)) (Some store) w = (Inr response, kv', w')"
          using t Inr Finite by (simp add: onRequest_petition_try_def str_simps)
        then have "kv' = Some (invalidated (str ''petition:'') (invalidated (str ''petitions:'') store))"
          by (rule handle_delete_success [OF r])
        then show ?thesis using whole by simp
      qed
    qed
  qed
qed

lemma onRequest_petitions_post_success:
  assumes r: "reliable store"
    and m: "http_method (ctx_request ctx) = str ''POST''"
    and ok: "status (fst (onRequest_petitions svc rt ctx (Some store) w)) = 200"
  shows "fst (snd (onRequest_petitions svc rt ctx (Some store) w)) =
     Some (invalidated (str ''petitions:'') store)"
proof -
  have nopt: "handleCORS (ctx_request ctx) (ctx_env ctx) = None"
    using m by (auto simp: handleCORS_def str_simps)
  obtain res kv' w' where t: "handle_post svc rt ctx (Some store) w = (res, kv', w')"
    by (cases "handle_post svc rt ctx (Some store) w") auto
  have t': "onRequest_petitions_try svc rt ctx (Some store) w = (res, kv', w')"
    using t m by (simp add: onRequest_petitions_try_def)
  show ?thesis
  proof (cases res)
    case (Inl e)
    then have "status (fst (onRequest_petitions svc rt ctx (Some store) w)) = 500"
      using t' nopt by (simp add: onRequest_petitions_def)
    with ok show ?thesis by simp
  next
    case (Inr response)
    then have whole: "onRequest_petitions svc rt ctx (Some store) w = (response, kv', w')"
      using t' nopt by (simp add: onRequest_petitions_def)
    then have st: "status response = 200" using ok by simp
    have "handle_post svc rt ctx (Some store) w = (Inr response, kv', w')"
      using t Inr by simp
    then have "kv' = Some (invalidated (str ''petitions:'') store)"
      using st by (rule handle_post_success [OF r])
    then show ?thesis using whole by simp
  qed
qed

text \<open>
  C1 (amended): on a store whose operations succeed, after a successful update or
  delete (\<open>PUT\<close> or \<open>DELETE\<close> on \<open>/api/petitions/{id}\<close> answered with 200) no key
  under \<open>petitions:\<close> or \<open>petition:\<close> is readable any more, now or later; after a
  successful create (\<open>POST\<close> on \<open>/api/petitions\<close> answered with 200) no key under
  \<open>petitions:\<close> is.
\<close>

theorem mutation_invalidates_cache:
  assumes "reliable store" and "clock store \<le> t"
  shows "((http_method (ctx_request ctx) = str ''PUT'' \<or> http_method (ctx_request ctx) = str ''DELETE'') \<and>
          status (fst (onRequest_petition svc rt ctx (Some store) w)) = 200 \<and>
          (startsWith key (str ''petitions:'') \<or> startsWith key (str ''petition:'')) \<longrightarrow>
            (\<exists>store'. fst (snd (onRequest_petition svc rt ctx (Some store) w)) = Some store' \<and>
               getCachedData parse key (Some (store'\<lparr>clock := t\<rparr>)) = Inr JNull)) \<and>
         (http_method (ctx_request ctx) = str ''POST'' \<and>
          status (fst (onRequest_petitions svc rt ctx (Some store) w)) = 200 \<and>
          startsWith key (str ''petitions:'') \<longrightarrow>
            (\<exists>store'. fst (snd (onRequest_petitions svc rt ctx (Some store) w)) = Some store' \<and>
               getCachedData parse key (Some (store'\<lparr>clock := t\<rparr>)) = Inr JNull))"
proof -
  have a: "(http_method (ctx_request ctx) = str ''PUT'' \<or> http_method (ctx_request ctx) = str ''DELETE'') \<and>
          status (fst (onRequest_petition svc rt ctx (Some store) w)) = 200 \<and>
          (startsWith key (str ''petitions:'') \<or> startsWith key (str ''petition:'')) \<longrightarrow>
            (\<exists>store'. fst (snd (onRequest_petition svc rt ctx (Some store) w)) = Some store' \<and>
               getCachedData parse key (Some (store'\<lparr>clock := t\<rparr>)) = Inr JNull)"
  proof (intro impI)
    assume h: "(http_method (ctx_request ctx) = str ''PUT'' \<or> http_method (ctx_request ctx) = str ''DELETE'') \<and>
          status (fst (onRequest_petition svc rt ctx (Some store) w)) = 200 \<and>
          (startsWith key (str ''petitions:'') \<or> startsWith key (str ''petition:''))"
    then have "fst (snd (onRequest_petition svc rt ctx (Some store) w)) =
        Some (invalidated (str ''petition:'') (invalidated (str ''petitions:'') store))"
      using onRequest_petition_mutation_success [OF assms(1), of ctx svc rt w] by simp
    moreover have "getCachedData parse key
        (Some ((invalidated (str ''petition:'') (invalidated (str ''petitions:'') store))\<lparr>clock := t\<rparr>)) = Inr JNull"
      using h by (intro both_invalidated_miss [OF assms(1) _ assms(2)]) simp
    ultimately show "\<exists>store'. fst (snd (onRequest_petition svc rt ctx (Some store) w)) = Some store' \<and>
               getCachedData parse key (Some (store'\<lparr>clock := t\<rparr>)) = Inr JNull"
      by simp
  qed
  have b: "http_method (ctx_request ctx) = str ''POST'' \<and>
          status (fst (onRequest_petitions svc rt ctx (Some store) w)) = 200 \<and>
          startsWith key (str ''petitions:'') \<longrightarrow>
            (\<exists>store'. fst (snd (onRequest_petitions svc rt ctx (Some store) w)) = Some store' \<and>
               getCachedData parse key (Some (store'\<lparr>clock := t\<rparr>)) = Inr JNull)"
  proof (intro impI)
    assume h: "http_method (ctx_request ctx) = str ''POST'' \<and>
          status (fst (onRequest_petitions svc rt ctx (Some store) w)) = 200 \<and>
          startsWith key (str ''petitions:'')"
    then have "fst (snd (onRequest_petitions svc rt ctx (Some store) w)) =
        Some (invalidated (str ''petitions:'') store)"
      using onRequest_petitions_post_success [OF assms(1), of ctx svc rt w] by simp
    moreover have "getCachedData parse key
        (Some ((invalidated (str ''petitions:'') store)\<lparr>clock := t\<rparr>)) = Inr JNull"
      using h by (intro one_invalidated_miss [OF assms(1) _ assms(2)]) simp
    ultimately show "\<exists>store'. fst (snd (onRequest_petitions svc rt ctx (Some store) w)) = Some store' \<and>
               getCachedData parse key (Some (store'\<lparr>clock := t\<rparr>)) = Inr JNull"
      by simp
  qed
  show ?thesis using a b by (rule conjI)
qed

lemma reliable_store_up: "reliable (store_up es)"
  by (simp add: reliable_def store_up_def)

lemma method_distinct:
  "str ''DELETE'' \<noteq> str ''GET''" "str ''DELETE'' \<noteq> str ''PUT''" "str ''DELETE'' \<noteq> str ''OPTIONS''"
  "str ''PUT'' \<noteq> str ''GET''" "str ''PUT'' \<noteq> str ''OPTIONS''" "str ''POST'' \<noteq> str ''OPTIONS''"
  by (simp_all add: str_simps)

lemma delete_example_status:
  "status (fst (onRequest_petition (memory_services JNull) example_runtime
      (example_context (str ''DELETE'') (str ''1'') JNull None) (Some example_store)
      [(JNumber 1, example_petition)])) = 200"
proof -
  let ?ctx = "example_context (str ''DELETE'') (str ''1'') JNull None"
  have m: "http_method (ctx_request ?ctx) = str ''DELETE''"
    by (simp add: example_context_def)
  have p: "parseInt (params_id ?ctx) 0 = Finite 1"
    by (simp add: example_context_def parseInt_def isWhiteSpace_def digitValue_def Let_def str_simps)
  have r: "reliable example_store"
    by (simp add: example_store_def reliable_store_up)
  have d: "fst (handle_delete (memory_services JNull) (JNumber 1) (Some example_store)
      [(JNumber 1, example_petition)]) =
      Inr (createSuccessResponse
        (JObject [(str ''message'', JString (str ''Petition deleted successfully''))]))"
    apply (simp add: handle_delete_def memory_services_def)
    apply (simp add: invalidate_both_reliable [OF r])
    done
  have t: "onRequest_petition_try (memory_services JNull) example_runtime ?ctx (Some example_store)
      [(JNumber 1, example_petition)] =
      handle_delete (memory_services JNull) (JNumber 1) (Some example_store)
      [(JNumber 1, example_petition)]"
    by (simp add: onRequest_petition_try_def p m method_distinct)
  have c: "handleCORS (ctx_request ?ctx) (ctx_env ?ctx) = None"
    by (simp add: handleCORS_def m method_distinct)
  show ?thesis
    using d by (auto simp: onRequest_petition_def c t split: prod.splits sum.splits)
qed

theorem mutation_invalidates_cache_witness:
  "reliable example_store \<and> clock example_store \<le> 0 \<and>
   getCachedData parse_text (str ''petition:/api/petitions/1'') (Some example_store) =
     Inr (JString (str ''one'')) \<and>
   status (fst (onRequest_petition (memory_services JNull) example_runtime
      (example_context (str ''DELETE'') (str ''1'') JNull None) (Some example_store)
      [(JNumber 1, example_petition)])) = 200 \<and>
   (\<exists>store'. fst (snd (onRequest_petition (memory_services JNull) example_runtime
      (example_context (str ''DELETE'') (str ''1'') JNull None) (Some example_store)
      [(JNumber 1, example_petition)])) = Some store' \<and>
      getCachedData parse_text (str ''petition:/api/petitions/1'') (Some (store'\<lparr>clock := 0\<rparr>)) = Inr JNull)"
proof -
  let ?ctx = "example_context (str ''DELETE'') (str ''1'') JNull None"
  have r: "reliable example_store"
    by (simp add: example_store_def reliable_store_up)
  have c: "clock example_store \<le> 0"
    by (simp add: example_store_def store_up_def)
  have hit: "getCachedData parse_text (str ''petition:/api/petitions/1'') (Some example_store) =
     Inr (JString (str ''one''))"
    by (simp add: getCachedData_def getCachedData_try_def kv_get_json_def kv_get_def live_def
        example_store_def store_up_def parse_text_def str_simps)
  have m: "http_method (ctx_request ?ctx) = str ''PUT'' \<or> http_method (ctx_request ?ctx) = str ''DELETE''"
    by (simp add: example_context_def)
  have k: "startsWith (str ''petition:/api/petitions/1'') (str ''petitions:'') \<or>
           startsWith (str ''petition:/api/petitions/1'') (str ''petition:'')"
    by (simp add: startsWith_def str_simps)
  from mutation_invalidates_cache [OF r c, of ?ctx "memory_services JNull" example_runtime
      "[(JNumber 1, example_petition)]" "str ''petition:/api/petitions/1''" parse_text]
    m k delete_example_status
  have "\<exists>store'. fst (snd (onRequest_petition (memory_services JNull) example_runtime ?ctx
      (Some example_store) [(JNumber 1, example_petition)])) = Some store' \<and>
      getCachedData parse_text (str ''petition:/api/petitions/1'') (Some (store'\<lparr>clock := 0\<rparr>)) = Inr JNull"
    by blast
  then show ?thesis using r c hit delete_example_status by blast
qed

lemma createPetitionSchema_with_location:
  "createPetitionSchema local_with_location =
     ([], JObject [(str ''title'', JString example_title),
                   (str ''description'', JString example_description),
                   (str ''type'', JString (str ''local'')),
                   (str ''location'', JString (str ''Manila'')),
                   (str ''target_count'', JNumber 1000),
                   (str ''created_by'', JString (str ''user123''))])"
proof -
  have len: "\<not> length example_title < 10" "\<not> 150 < length example_title"
    by (simp_all add: example_title_def str_simps)
  have obj: "createPetitionObject local_with_location =
     ([], JObject [(str ''title'', JString example_title),
                   (str ''description'', JString example_description),
                   (str ''type'', JString (str ''local'')),
                   (str ''location'', JString (str ''Manila'')),
                   (str ''target_count'', JNumber 1000),
                   (str ''created_by'', JString (str ''user123''))])"
    by (simp add: createPetitionObject_def object_schema_def basePetitionFields_def
      local_with_location_def title_schema_def description_schema_def type_schema_def
      location_schema_def target_count_schema_def category_ids_schema_def string_schema_def
      optional_def prefixIssues_def example_description_length trim_example_title
      trim_example_description len str_simps)
       (simp add: trim_def isWhiteSpace_def)
  show ?thesis
    by (simp add: createPetitionSchema_def refine_def obj aborted_def location_required_def str_simps)
qed

text \<open>
  The claim C1 as stated fails for a create: \<open>POST\<close> invalidates the listing
  namespace only, and an entry under \<open>petition:\<close> is still served afterwards.
\<close>

theorem create_keeps_single_entries_counterexample:
  "startsWith (str ''petition:/api/petitions/1'') (str ''petition:'') \<and>
   status (fst (onRequest_petitions (memory_services JNull) example_runtime
      (example_context (str ''POST'') [] local_with_location (Some example_user))
      (Some example_store) [])) = 200 \<and>
   getCachedData parse_text (str ''petition:/api/petitions/1'')
     (fst (snd (onRequest_petitions (memory_services JNull) example_runtime
        (example_context (str ''POST'') [] local_with_location (Some example_user))
        (Some example_store) []))) = Inr (JString (str ''one''))"
proof -
  let ?ctx = "example_context (str ''POST'') [] local_with_location (Some example_user)"
  have r: "reliable example_store"
    by (simp add: example_store_def reliable_store_up)
  have k: "startsWith (str ''petition:/api/petitions/1'') (str ''petition:'')"
    by (simp add: startsWith_def str_simps)
  have own: "assign_prop local_with_location (str ''created_by'') (user_id example_user) =
      local_with_location"
    by (simp add: local_with_location_def example_user_def str_simps)
  have pay: "create_payload example_runtime ?ctx example_user = Inr (local_with_location, None)"
    using own
    by (simp add: create_payload_def is_multipart_def includes_str_def example_context_def
        local_with_location_def str_simps)
  have u: "data_user ?ctx = Some example_user"
    by (simp add: example_context_def)
  have sp: "safeParse createPetitionSchema local_with_location =
      Inr (snd (createPetitionSchema local_with_location))"
    by (simp add: safeParse_def createPetitionSchema_with_location)
  have cr: "\<And>x. createPetition (memory_services JNull) x [] =
      (Inr (assign_prop x (str ''id'') (JNumber 1)), [(JNumber 1, assign_prop x (str ''id'') (JNumber 1))])"
    by (simp add: memory_services_def Let_def)
  have up: "\<And>pid petition w. upload_image (memory_services JNull) example_runtime pid petition None w =
      (petition, w)"
    by (simp add: upload_image_def)
  have post: "\<exists>payload w'. handle_post (memory_services JNull) example_runtime ?ctx (Some example_store) [] =
      (Inr (createSuccessResponse payload), Some (invalidated (str ''petitions:'') example_store), w')"
    by (simp add: handle_post_def u pay sp cr up invalidateCachePattern_reliable [OF r]) blast
  have m: "http_method (ctx_request ?ctx) = str ''POST''"
    by (simp add: example_context_def)
  have c: "handleCORS (ctx_request ?ctx) (ctx_env ?ctx) = None"
    by (simp add: handleCORS_def m method_distinct)
  have inv: "invalidated (str ''petitions:'') example_store =
      store_up [(str ''petition:/api/petitions/1'', str ''\"one\"'', 600)]"
    by (simp add: invalidated_def example_store_def store_up_def live_def startsWith_def str_simps)
  from post obtain payload w' where
    "handle_post (memory_services JNull) example_runtime ?ctx (Some example_store) [] =
      (Inr (createSuccessResponse payload), Some (invalidated (str ''petitions:'') example_store), w')"
    by blast
  then have whole: "onRequest_petitions (memory_services JNull) example_runtime ?ctx (Some example_store) [] =
      (createSuccessResponse payload, Some (invalidated (str ''petitions:'') example_store), w')"
    by (simp add: onRequest_petitions_def onRequest_petitions_try_def c m)
  have hit: "getCachedData parse_text (str ''petition:/api/petitions/1'')
      (Some (store_up [(str ''petition:/api/petitions/1'', str ''\"one\"'', 600)])) =
     Inr (JString (str ''one''))"
    by (simp add: getCachedData_def getCachedData_try_def kv_get_json_def kv_get_def live_def
        store_up_def parse_text_def str_simps)
  show ?thesis using k hit by (simp add: whole inv)
qed

lemma requirePetitionOwnership_decides:
  assumes a: "getAuthenticatedUser svc request env w = (Some user, w1)"
    and g: "getPetitionById svc petitionId w1 = (Inr petition, w2)"
    and f: "\<not> falsy petition"
  shows "requirePetitionOwnership svc request env petitionId w =
     (if strict_equal (prop_of petition (str ''created_by'')) (user_id user)
      then (Inr user, w2)
      else (Inl (json_response 403
                  (JObject [(str ''error'', JString (str ''Forbidden'')),
                            (str ''message'', JString (str ''You can only modify petitions you created''))])
                  request env), w2))"
  using a g f by (simp add: requirePetitionOwnership_def requireAuthentication_def)

text \<open>
  C2: a \<open>PUT\<close> on \<open>/api/petitions/{id}\<close> by a signed-in user, for a petition that
  exists.  When the user's id differs from the petition's \<open>created_by\<close>, the answer
  has status 403, the cache is untouched and the world is as the two reads of the
  ownership check left it: no update ran.  When the two are equal, the check passes
  and the request is handled by the \<open>PUT\<close> handler with the user attached.
\<close>

theorem put_requires_ownership:
  assumes m: "http_method (ctx_request ctx) = str ''PUT''"
    and i: "parseInt (params_id ctx) 0 = Finite n"
    and a: "getAuthenticatedUser svc (ctx_request ctx) (ctx_env ctx) w = (Some user, w1)"
    and g: "getPetitionById svc (JNumber (of_int n)) w1 = (Inr petition, w2)"
    and f: "\<not> falsy petition"
  shows "(\<not> strict_equal (prop_of petition (str ''created_by'')) (user_id user) \<longrightarrow>
            status (fst (route_petition svc rt ctx kv w)) = 403 \<and>
            snd (route_petition svc rt ctx kv w) = (kv, w2)) \<and>
         (strict_equal (prop_of petition (str ''created_by'')) (user_id user) \<longrightarrow>
            requirePetitionOwnership svc (ctx_request ctx) (ctx_env ctx) (JNumber (of_int n)) w =
              (Inr user, w2) \<and>
            route_petition svc rt ctx kv w =
              onRequest_petition svc rt (ctx\<lparr>data_user := Some user\<rparr>) kv w2)"
proof (cases "strict_equal (prop_of petition (str ''created_by'')) (user_id user)")
  case True
  then have "requirePetitionOwnership svc (ctx_request ctx) (ctx_env ctx) (JNumber (of_int n)) w =
      (Inr user, w2)"
    using requirePetitionOwnership_decides [OF a g f] by simp
  then show ?thesis using True m i by (simp add: route_petition_def)
next
  case False
  then have "requirePetitionOwnership svc (ctx_request ctx) (ctx_env ctx) (JNumber (of_int n)) w =
      (Inl (json_response 403
                  (JObject [(str ''error'', JString (str ''Forbidden'')),
                            (str ''message'', JString (str ''You can only modify petitions you created''))])
                  (ctx_request ctx) (ctx_env ctx)), w2)"
    using requirePetitionOwnership_decides [OF a g f] by simp
  then show ?thesis using False m i by (simp add: route_petition_def json_response_def)
qed

lemma getAuthenticatedUser_session:
  "getAuthenticatedUser (memory_services (session_of uid)) request env w =
     (if uid = [] then None
      else Some \<lparr>user_id = JString uid, user_email = JUndefined, user_name = JUndefined,
                  user_image = JUndefined\<rparr>, w)"
  by (simp add: getAuthenticatedUser_def memory_services_def session_of_def falsy_def Let_def str_simps)

theorem put_requires_ownership_witness:
  "status (fst (route_petition (memory_services (session_of (str ''intruder''))) example_runtime
      (example_context (str ''PUT'') (str ''1'') update_title None) (Some example_store)
      [(JNumber 1, example_petition)])) = 403 \<and>
   snd (route_petition (memory_services (session_of (str ''intruder''))) example_runtime
      (example_context (str ''PUT'') (str ''1'') update_title None) (Some example_store)
      [(JNumber 1, example_petition)]) = (Some example_store, [(JNumber 1, example_petition)]) \<and>
   route_petition (memory_services (session_of (str ''user123''))) example_runtime
      (example_context (str ''PUT'') (str ''1'') update_title None) (Some example_store)
      [(JNumber 1, example_petition)] =
   onRequest_petition (memory_services (session_of (str ''user123''))) example_runtime
      (example_context (str ''PUT'') (str ''1'') update_title
         (Some \<lparr>user_id = JString (str ''user123''), user_email = JUndefined,
                 user_name = JUndefined, user_image = JUndefined\<rparr>))
      (Some example_store) [(JNumber 1, example_petition)]"
proof -
  let ?ctx = "example_context (str ''PUT'') (str ''1'') update_title None"
  let ?db = "[(JNumber 1, example_petition)]"
  let ?user = "\<lambda>uid. \<lparr>user_id = JString uid, user_email = JUndefined, user_name = JUndefined,
                  user_image = JUndefined\<rparr>"
  have m: "http_method (ctx_request ?ctx) = str ''PUT''"
    by (simp add: example_context_def)
  have i: "parseInt (params_id ?ctx) 0 = Finite 1"
    by (simp add: example_context_def parseInt_def isWhiteSpace_def digitValue_def Let_def str_simps)
  have a1: "getAuthenticatedUser (memory_services (session_of (str ''intruder'')))
      (ctx_request ?ctx) (ctx_env ?ctx) ?db = (Some (?user (str ''intruder'')), ?db)"
    by (simp add: getAuthenticatedUser_session str_simps)
  have a2: "getAuthenticatedUser (memory_services (session_of (str ''user123'')))
      (ctx_request ?ctx) (ctx_env ?ctx) ?db = (Some (?user (str ''user123'')), ?db)"
    by (simp add: getAuthenticatedUser_session str_simps)
  have g: "\<And>s. getPetitionById (memory_services s) (JNumber (of_int 1)) ?db = (Inr example_petition, ?db)"
    by (simp add: memory_services_def)
  have f: "\<not> falsy example_petition"
    by (simp add: falsy_def example_petition_def)
  have ne: "\<not> strict_equal (prop_of example_petition (str ''created_by'')) (user_id (?user (str ''intruder'')))"
    by (simp add: example_petition_def str_simps)
  have eq: "strict_equal (prop_of example_petition (str ''created_by'')) (user_id (?user (str ''user123'')))"
    by (simp add: example_petition_def str_simps)
  have upd: "?ctx\<lparr>data_user := Some (?user (str ''user123''))\<rparr> =
      example_context (str ''PUT'') (str ''1'') update_title (Some (?user (str ''user123'')))"
    by (simp add: example_context_def)
  from put_requires_ownership [OF m i a1 g f, of example_runtime "Some example_store"] ne
  have r1: "status (fst (route_petition (memory_services (session_of (str ''intruder''))) example_runtime
      ?ctx (Some example_store) ?db)) = 403 \<and>
      snd (route_petition (memory_services (session_of (str ''intruder''))) example_runtime
      ?ctx (Some example_store) ?db) = (Some example_store, ?db)"
    by blast
  from put_requires_ownership [OF m i a2 g f, of example_runtime "Some example_store"] eq
  have "route_petition (memory_services (session_of (str ''user123''))) example_runtime
      ?ctx (Some example_store) ?db =
      onRequest_petition (memory_services (session_of (str ''user123''))) example_runtime
      (?ctx\<lparr>data_user := Some (?user (str ''user123''))\<rparr>) (Some example_store) ?db"
    by blast
  then have r2: "route_petition (memory_services (session_of (str ''user123''))) example_runtime
      ?ctx (Some example_store) ?db =
      onRequest_petition (memory_services (session_of (str ''user123''))) example_runtime
      (example_context (str ''PUT'') (str ''1'') update_title (Some (?user (str ''user123''))))
      (Some example_store) ?db"
    using upd by simp
  show ?thesis using r1 r2 by blast
qed

end
